theory Spec2Isabelle
  imports
    Complex_Main
    "HOL-Library.Multiset"
    "HOL-Library.Char_ord"
    "HOL-Library.List_Lexorder"
begin

section \<open>The terminal gas table of hardhat-gas-reporter\<close>

text \<open>
  A shallow embedding of \<^verbatim>\<open>generateTerminalTextTable\<close>
  (\<^verbatim>\<open>src/lib/render/terminal.ts\<close>). The function builds the rows of a
  \<^verbatim>\<open>cli-table3\<close> table from the collected gas data and the reporter's
  options, sets the colour level of \<^verbatim>\<open>chalk\<close>, sorts the caller's
  deployments array in place, and returns the serialised table.

  What belongs to libraries and to the host is kept symbolic:
  \<^item> a string styled by \<^verbatim>\<open>chalk\<close> is a \<open>Styled\<close> node around the text
    it was given (at level 0 \<^verbatim>\<open>chalk\<close> returns its argument);
  \<^item> \<^verbatim>\<open>Number.prototype.toString\<close> of a cost or a percentage is a
    \<open>NumberToString\<close> node; costs and percentages are rationals (no NaN, no
    infinities, no rounding);
  \<^item> \<^verbatim>\<open>String.prototype.localeCompare\<close>, \<^verbatim>\<open>getCommonTableVals\<close>
    and \<^verbatim>\<open>indentText\<close> are fields of an environment record \<open>Env\<close>;
  \<^item> the text that \<^verbatim>\<open>table.toString()\<close> produces is not modelled: the
    function's result is the table handed to it (its options and its rows).
  Gas quantities and call counts are natural numbers.
\<close>

subsection \<open>Cell contents\<close>

datatype style = Grey | Cyan | Red | Green | Bold | Magenta | GreenBold | MagentaBold

datatype rich =
    Lit string
  | NumberToString rat
  | Styled style rich
  | Cat rich rich

text \<open>The content of a cell: a string, a number (the call count), or \<^verbatim>\<open>undefined\<close>.\<close>

datatype content = CUndefined | CNumber nat | CText rich

datatype align = HLeft | HRight | HCenter

record Cell =
  hAlign :: "align option"
  colSpan :: nat
  content :: content

type_synonym HorizontalTableRow = "Cell list"

record Section =
  row :: HorizontalTableRow
  contractName :: string
  methodName :: string

record Table =
  colWidths :: "nat list"
  leftPad :: string
  rows :: "HorizontalTableRow list"

subsection \<open>Inputs\<close>

text \<open>
  The declarations of \<^verbatim>\<open>MethodDataItem\<close>, \<^verbatim>\<open>GasData\<close> and
  \<^verbatim>\<open>GasReporterOptions\<close> are not among the sources; the fields are the ones
  the function reads, typed by the way it reads them. \<open>None\<close> is
  \<^verbatim>\<open>undefined\<close>. The fields \<open>method\<close>, \<open>min\<close> and \<open>max\<close> carry a suffix.
\<close>

record MethodDataItem =
  contract :: string
  method_m :: string
  fnSig :: string
  gasData :: "nat list"
  numberOfCalls :: nat
  executionGasAverage :: "nat option"
  calldataGasAverage :: "nat option"
  min_m :: "nat option"
  max_m :: "nat option"
  cost :: "rat option"

record Deployment =
  name :: string
  gasData_d :: "nat list"
  executionGasAverage_d :: "nat option"
  calldataGasAverage_d :: "nat option"
  min_d :: "nat option"
  max_d :: "nat option"
  cost_d :: "rat option"
  percent :: "rat option"

text \<open>An entry of \<open>methods\<close> may be null (\<open>None\<close>); the loop skips it.\<close>

record GasData =
  methods :: "MethodDataItem option list"
  deployments :: "Deployment list"

record GasReporterOptions =
  noColors :: bool
  outputFile :: "string option"
  darkMode :: bool
  L2 :: "string option"
  showMethodSig :: bool
  showUncalledMethods :: bool
  currencyDisplayPrecision :: nat
  rst :: bool
  tokenPrice :: "string option"
  gasPrice :: "rat option"
  currency :: "string option"

text \<open>What \<^verbatim>\<open>getSolcInfo(hre.config.solidity.compilers[0])\<close> returns, and the
  block gas limit of \<^verbatim>\<open>hre.__hhgrec\<close>.\<close>

record SolcInfo =
  version :: string
  optimizer :: string
  viaIR :: bool
  runs :: string

record HardhatRuntimeEnvironment =
  solcInfo :: SolcInfo
  blockGasLimit :: "nat option"

record CommonTableVals =
  l1gwei :: string
  l2gwei :: string
  l1gweiNote :: string
  l2gweiNote :: string
  network :: string
  rate :: string
  currency_v :: string
  token :: string
  intrinsicMsg :: string
  nonZeroMsg :: string

record Env =
  localeCompare :: "string \<Rightarrow> string \<Rightarrow> int"
  getCommonTableVals :: "GasReporterOptions \<Rightarrow> CommonTableVals"
  indentText :: "string \<Rightarrow> string"

text \<open>The process-wide state: the colour level of \<^verbatim>\<open>chalk\<close>. The record is
  extensible, so whatever else the process holds is the \<open>more\<close> part.\<close>

record Process =
  chalkLevel :: nat

datatype error =
    InvalidArgument  \<comment> \<open>\<^verbatim>\<open>utils.commify\<close> on \<^verbatim>\<open>undefined\<close>\<close>
  | TypeError  \<comment> \<open>\<^verbatim>\<open>toLowerCase\<close> of \<^verbatim>\<open>undefined\<close>\<close>

subsection \<open>Constants and library functions\<close>

definition UNICODE_CIRCLE :: string where
  "UNICODE_CIRCLE = [CHR 0xE2, CHR 0x97, CHR 0xAF]"

definition UNICODE_TRIANGLE :: string where
  "UNICODE_TRIANGLE = [CHR 0xE2, CHR 0x96, CHR 0xB3]"

text \<open>\<^verbatim>\<open>chalk.<style>(s)\<close> at the colour level \<open>lvl\<close>.\<close>

definition chalk :: "nat \<Rightarrow> style \<Rightarrow> rich \<Rightarrow> rich" where
  "chalk lvl s t = (if lvl = 0 then t else Styled s t)"

text \<open>The dash placeholder, \<^verbatim>\<open>chalk.grey("-")\<close>.\<close>

definition dash :: "nat \<Rightarrow> rich" where
  "dash lvl = chalk lvl Grey (Lit ''-'')"

definition digit :: "nat \<Rightarrow> char" where
  "digit d = ''0123456789'' ! d"

fun decimal :: "nat \<Rightarrow> string" where
  "decimal n = (if n < 10 then [digit n] else decimal (n div 10) @ [digit (n mod 10)])"

declare decimal.simps [simp del]

text \<open>The grouping loop of \<^verbatim>\<open>utils.commify\<close> (ethers): groups of three digits
  are taken from the right of \<open>whole\<close> and put in front of \<open>formatted\<close>.\<close>

function commifyGroups :: "string \<Rightarrow> string list \<Rightarrow> string list" where
  "commifyGroups whole formatted =
     (if whole = [] then formatted
      else if length whole \<le> 3 then whole # formatted
      else commifyGroups (take (length whole - 3) whole)
             (drop (length whole - 3) whole # formatted))"
  by pat_completeness auto
termination
  by (relation "measure (\<lambda>(whole, formatted). length whole)") auto

declare commifyGroups.simps [simp del]

fun join :: "string \<Rightarrow> string list \<Rightarrow> string" where
  "join sep [] = []"
| "join sep [x] = x"
| "join sep (x # y # ys) = x @ sep @ join sep (y # ys)"

text \<open>\<^verbatim>\<open>utils.commify\<close> on a non-negative integer: no sign, no fraction.\<close>

definition commify :: "nat \<Rightarrow> string" where
  "commify n = join '','' (commifyGroups (decimal n) [])"

text \<open>\<^verbatim>\<open>utils.commify(x!)\<close> where \<open>x\<close> may be \<^verbatim>\<open>undefined\<close>: the library
  rejects the string \<^verbatim>\<open>"undefined"\<close> with an argument error.\<close>

definition commifyOpt :: "nat option \<Rightarrow> error + string" where
  "commifyOpt x = (case x of None \<Rightarrow> Inl InvalidArgument | Some n \<Rightarrow> Inr (commify n))"

text \<open>Modelled from the spec: \<^verbatim>\<open>getSmallestPrecisionVal\<close> of
  \<^verbatim>\<open>utils/ui\<close> is not among the sources. The spec gives the smallest
  representable unit at the configured display precision, \<open>10^-precision\<close>
  (precision 2 gives 0.01).\<close>

definition getSmallestPrecisionVal :: "nat \<Rightarrow> rat" where
  "getSmallestPrecisionVal precision = 1 / 10 ^ precision"

text \<open>\<^verbatim>\<open>toLowerCase\<close> on ASCII letters.\<close>

definition lowerChar :: "char \<Rightarrow> char" where
  "lowerChar c =
     (case map_of (zip ''ABCDEFGHIJKLMNOPQRSTUVWXYZ'' ''abcdefghijklmnopqrstuvwxyz'') c of
        None \<Rightarrow> c
      | Some l \<Rightarrow> l)"

definition toLowerCase :: "string \<Rightarrow> string" where
  "toLowerCase s = map lowerChar s"

text \<open>JavaScript truthiness of an optional number and of an optional string.\<close>

definition truthyNat :: "nat option \<Rightarrow> bool" where
  "truthyNat x = (case x of None \<Rightarrow> False | Some n \<Rightarrow> n \<noteq> 0)"

definition truthyRat :: "rat option \<Rightarrow> bool" where
  "truthyRat x = (case x of None \<Rightarrow> False | Some q \<Rightarrow> q \<noteq> 0)"

definition truthyString :: "string option \<Rightarrow> bool" where
  "truthyString x = (case x of None \<Rightarrow> False | Some s \<Rightarrow> s \<noteq> [])"

subsection \<open>Array.prototype.sort\<close>

text \<open>
  \<^verbatim>\<open>xs.sort(cmp)\<close> is stable; for a consistent comparator its result is the one
  stable sorted arrangement, computed here by insertion from the right. An element goes
  in front of the first element it does not follow (\<open>cmp x y \<le> 0\<close>).
\<close>

fun insortBy :: "('a \<Rightarrow> 'a \<Rightarrow> int) \<Rightarrow> 'a \<Rightarrow> 'a list \<Rightarrow> 'a list" where
  "insortBy cmp x [] = [x]"
| "insortBy cmp x (y # ys) = (if cmp x y \<le> 0 then x # y # ys else y # insortBy cmp x ys)"

definition sortBy :: "('a \<Rightarrow> 'a \<Rightarrow> int) \<Rightarrow> 'a list \<Rightarrow> 'a list" where
  "sortBy cmp xs = foldr (insortBy cmp) xs []"

text \<open>A consistent comparator, as \<^verbatim>\<open>sort\<close> requires it.\<close>

definition consistent :: "('a \<Rightarrow> 'a \<Rightarrow> int) \<Rightarrow> bool" where
  "consistent cmp \<longleftrightarrow>
     (\<forall>a. cmp a a = 0) \<and>
     (\<forall>a b. (cmp a b < 0) = (0 < cmp b a)) \<and>
     (\<forall>a b c. cmp a b \<le> 0 \<and> cmp b c \<le> 0 \<longrightarrow> cmp a c \<le> 0)"

text \<open>Comparison of strings by their code units, a comparator to run the model with.\<close>

definition codeUnitCompare :: "string \<Rightarrow> string \<Rightarrow> int" where
  "codeUnitCompare a b = (if a < b then - 1 else if a = b then 0 else 1)"

subsection \<open>Column layout (lines 32 to 61)\<close>

text \<open>The column count and the widths that depend on it are fixed from
  \<open>options.L2\<close> before any row is built.\<close>

definition numberOfCols :: "'a GasReporterOptions_scheme \<Rightarrow> nat" where
  "numberOfCols options = (if L2 options \<noteq> None then 8 else 7)"

definition blockLimitColumnWidth :: "'a GasReporterOptions_scheme \<Rightarrow> nat" where
  "blockLimitColumnWidth options = (if L2 options \<noteq> None then 3 else 2)"

definition deploymentsTitleSpacerWidth :: "'a GasReporterOptions_scheme \<Rightarrow> nat" where
  "deploymentsTitleSpacerWidth options = (if L2 options \<noteq> None then 3 else 2)"

definition contractTitleSpacerWidth :: "'a GasReporterOptions_scheme \<Rightarrow> nat" where
  "contractTitleSpacerWidth options = (if L2 options \<noteq> None then 6 else 5)"

definition executionGasAverageTitle :: "'a GasReporterOptions_scheme \<Rightarrow> string" where
  "executionGasAverageTitle options = (if L2 options \<noteq> None then ''L2 Avg (Exec)'' else ''Avg'')"

definition calldataGasAverageTitle :: "'a GasReporterOptions_scheme \<Rightarrow> string" where
  "calldataGasAverageTitle options = (if L2 options \<noteq> None then ''L1 Avg (Data)'' else [])"

text \<open>Lines 42 to 46: the colour level the call sets.\<close>

definition colorLevel :: "'a GasReporterOptions_scheme \<Rightarrow> nat" where
  "colorLevel options = (if noColors options \<or> outputFile options \<noteq> None then 0 else 1)"

text \<open>Lines 48 to 52.\<close>

definition optionalColor :: "'a GasReporterOptions_scheme \<Rightarrow> style" where
  "optionalColor options = (if darkMode options then Cyan else Bold)"

definition cell :: "align option \<Rightarrow> nat \<Rightarrow> content \<Rightarrow> Cell" where
  "cell h n c = \<lparr>hAlign = h, colSpan = n, content = c\<rparr>"

subsection \<open>Methods: section assembly (lines 69 to 144)\<close>

text \<open>\<open>stats.cost\<close> is a number or a string.\<close>

datatype costval = CostNumber rat | CostString rich

record Stats =
  stats_executionGasAverage :: content
  stats_cost :: costval
  stats_calldataGasAverage :: content
  stats_min :: content
  stats_max :: content

text \<open>Lines 105 to 108 and 159 to 162: a numeric cost below the smallest displayed unit
  becomes the triangle.\<close>

definition belowPrecision :: "'a GasReporterOptions_scheme \<Rightarrow> costval \<Rightarrow> costval" where
  "belowPrecision options c =
     (case c of
        CostNumber q \<Rightarrow>
          if q < getSmallestPrecisionVal (currencyDisplayPrecision options)
          then CostString (Lit UNICODE_TRIANGLE) else CostNumber q
      | CostString s \<Rightarrow> CostString s)"

text \<open>\<open>stats.cost.toString()\<close>.\<close>

definition costToString :: "costval \<Rightarrow> rich" where
  "costToString c = (case c of CostNumber q \<Rightarrow> NumberToString q | CostString s \<Rightarrow> s)"

text \<open>Lines 110 to 114 and 168 to 172: \<open>stats.min\<close> and \<open>stats.max\<close>. They stay
  \<^verbatim>\<open>undefined\<close> unless both \<open>min\<close> and \<open>max\<close> are truthy.\<close>

definition minMax :: "nat \<Rightarrow> nat option \<Rightarrow> nat option \<Rightarrow> content \<times> content" where
  "minMax lvl mn mx =
     (if truthyNat mn \<and> truthyNat mx then
        (let uniform = (mn = mx) in
          (if uniform then CText (dash lvl) else CText (chalk lvl Cyan (Lit (commify (the mn)))),
           if uniform then CText (dash lvl) else CText (chalk lvl Red (Lit (commify (the mx))))))
      else (CUndefined, CUndefined))"

text \<open>Lines 79 to 86: the header section of the contract named \<open>c\<close>
  (\<open>method.contract\<close>).\<close>

definition contractNameSection :: "nat \<Rightarrow> 'a GasReporterOptions_scheme \<Rightarrow> string \<Rightarrow> Section" where
  "contractNameSection lvl options c =
     \<lparr>row =
        [cell (Some HLeft) 2 (CText (chalk lvl (optionalColor options) (Lit c))),
         cell (Some HLeft) (contractTitleSpacerWidth options) (CText (Lit []))],
      contractName = c,
      methodName = ''0''\<rparr>"

text \<open>Lines 90 to 114.\<close>

definition methodStats ::
    "nat \<Rightarrow> 'a GasReporterOptions_scheme \<Rightarrow> 'b MethodDataItem_scheme \<Rightarrow> error + Stats" where
  "methodStats lvl options m =
     (case
        (if gasData m \<noteq> [] then
           (case commifyOpt (executionGasAverage m) of
              Inl e \<Rightarrow> Inl e
            | Inr avg \<Rightarrow>
                Inr (CText (Lit avg),
                     (case cost m of None \<Rightarrow> CostString (dash lvl) | Some c \<Rightarrow> CostNumber c),
                     (case calldataGasAverage m of
                        Some a \<Rightarrow> CText (Lit (commify a))
                      | None \<Rightarrow> CText (Lit []))))
         else Inr (CText (dash lvl), CostString (dash lvl), CUndefined))
      of
        Inl e \<Rightarrow> Inl e
      | Inr (avg, c, calldata) \<Rightarrow>
          Inr \<lparr>stats_executionGasAverage = avg,
               stats_cost = belowPrecision options c,
               stats_calldataGasAverage = calldata,
               stats_min = fst (minMax lvl (min_m m) (max_m m)),
               stats_max = snd (minMax lvl (min_m m) (max_m m))\<rparr>)"

text \<open>Line 116.\<close>

definition fnName :: "'a GasReporterOptions_scheme \<Rightarrow> 'b MethodDataItem_scheme \<Rightarrow> string" where
  "fnName options m = (if showMethodSig options then fnSig m else method_m m)"

text \<open>Lines 119 to 134.\<close>

definition methodRow ::
    "'e Env_scheme \<Rightarrow> nat \<Rightarrow> 'a GasReporterOptions_scheme \<Rightarrow> 'b MethodDataItem_scheme \<Rightarrow>
     Stats \<Rightarrow> HorizontalTableRow" where
  "methodRow env lvl options m stats =
     [cell (Some HLeft) 2 (CText (Lit (indentText env (fnName options m)))),
      cell (Some HRight) 1 (stats_min stats),
      cell (Some HRight) 1 (stats_max stats),
      cell (Some HRight) 1 (stats_executionGasAverage stats)]
     @ (if L2 options \<noteq> None then [cell (Some HRight) 1 (stats_calldataGasAverage stats)] else [])
     @ [cell (Some HRight) 1 (CNumber (numberOfCalls m)),
        cell (Some HRight) 1 (CText (chalk lvl Green (costToString (stats_cost stats))))]"

text \<open>Lines 136 to 140.\<close>

definition methodSection ::
    "'e Env_scheme \<Rightarrow> nat \<Rightarrow> 'a GasReporterOptions_scheme \<Rightarrow> 'b MethodDataItem_scheme \<Rightarrow>
     Stats \<Rightarrow> Section" where
  "methodSection env lvl options m stats =
     \<lparr>row = methodRow env lvl options m stats,
      contractName = contract m,
      methodName = fnName options m\<rparr>"

text \<open>The callback of \<^verbatim>\<open>_.forEach(data.methods, ...)\<close>, on the pair of
  \<open>addedContracts\<close> and \<open>methodRows\<close>; \<open>push\<close> appends.\<close>

definition methodCallback ::
    "'e Env_scheme \<Rightarrow> nat \<Rightarrow> 'a GasReporterOptions_scheme \<Rightarrow> 'b MethodDataItem_scheme option \<Rightarrow>
     string list \<times> Section list \<Rightarrow> error + (string list \<times> Section list)" where
  "methodCallback env lvl options entry acc =
     (case entry of
        None \<Rightarrow> Inr acc
      | Some m \<Rightarrow>
          (let addedContracts = fst acc;
               methodRows = snd acc;
               first = (contract m \<notin> set addedContracts \<and> gasData m \<noteq> []);
               addedContracts1 = (if first then addedContracts @ [contract m] else addedContracts);
               methodRows1 =
                 (if first then methodRows @ [contractNameSection lvl options (contract m)]
                  else methodRows)
           in case methodStats lvl options m of
                Inl e \<Rightarrow> Inl e
              | Inr stats \<Rightarrow>
                  if showUncalledMethods options \<or> 0 < numberOfCalls m
                  then Inr (addedContracts1, methodRows1 @ [methodSection env lvl options m stats])
                  else Inr (addedContracts1, methodRows1)))"

fun forEachMethod ::
    "'e Env_scheme \<Rightarrow> nat \<Rightarrow> 'a GasReporterOptions_scheme \<Rightarrow> 'b MethodDataItem_scheme option list \<Rightarrow>
     string list \<times> Section list \<Rightarrow> error + (string list \<times> Section list)" where
  "forEachMethod env lvl options [] acc = Inr acc"
| "forEachMethod env lvl options (entry # entries) acc =
     (case methodCallback env lvl options entry acc of
        Inl e \<Rightarrow> Inl e
      | Inr acc' \<Rightarrow> forEachMethod env lvl options entries acc')"

subsection \<open>Deployments: section assembly (lines 149 to 196)\<close>

text \<open>Line 151: the comparator of the in-place sort of \<open>data.deployments\<close>.\<close>

definition deploymentCompare :: "'e Env_scheme \<Rightarrow> 'b Deployment_scheme \<Rightarrow> 'b Deployment_scheme \<Rightarrow> int" where
  "deploymentCompare env a b = localeCompare env (name a) (name b)"

text \<open>Line 187: the template \<^verbatim>\<open>`${deployment.percent!} %`\<close>.\<close>

definition percentText :: "rat option \<Rightarrow> rich" where
  "percentText p =
     (case p of None \<Rightarrow> Lit ''undefined %'' | Some q \<Rightarrow> Cat (NumberToString q) (Lit '' %''))"

text \<open>Lines 157 to 193, for a deployment with recorded gas data.\<close>

definition deploymentRow ::
    "nat \<Rightarrow> 'a GasReporterOptions_scheme \<Rightarrow> 'b Deployment_scheme \<Rightarrow> error + HorizontalTableRow" where
  "deploymentRow lvl options d =
     (let cost0 = (case cost_d d of None \<Rightarrow> CostString (dash lvl) | Some c \<Rightarrow> CostNumber c);
          cost1 = belowPrecision options cost0;
          calldata =
            (case calldataGasAverage_d d of None \<Rightarrow> Lit [] | Some a \<Rightarrow> Lit (commify a));
          mm = minMax lvl (min_d d) (max_d d)
      in case commifyOpt (executionGasAverage_d d) of
           Inl e \<Rightarrow> Inl e
         | Inr avg \<Rightarrow>
             Inr ([cell (Some HLeft) 2 (CText (chalk lvl Bold (Lit (name d)))),
                   cell (Some HRight) 1 (fst mm),
                   cell (Some HRight) 1 (snd mm),
                   cell (Some HRight) 1 (CText (Lit avg))]
                  @ (if L2 options \<noteq> None then [cell (Some HRight) 1 (CText calldata)] else [])
                  @ [cell (Some HRight) 1 (CText (percentText (percent d))),
                     cell (Some HRight) 1 (CText (chalk lvl Green (costToString cost1)))]))"

text \<open>The callback of \<^verbatim>\<open>data.deployments.forEach\<close>, on \<open>deployRows\<close>.\<close>

definition deploymentCallback ::
    "nat \<Rightarrow> 'a GasReporterOptions_scheme \<Rightarrow> 'b Deployment_scheme \<Rightarrow>
     HorizontalTableRow list \<Rightarrow> error + HorizontalTableRow list" where
  "deploymentCallback lvl options d deployRows =
     (if gasData_d d = [] then Inr deployRows
      else case deploymentRow lvl options d of
             Inl e \<Rightarrow> Inl e
           | Inr section \<Rightarrow> Inr (deployRows @ [section]))"

fun forEachDeployment ::
    "nat \<Rightarrow> 'a GasReporterOptions_scheme \<Rightarrow> 'b Deployment_scheme list \<Rightarrow>
     HorizontalTableRow list \<Rightarrow> error + HorizontalTableRow list" where
  "forEachDeployment lvl options [] deployRows = Inr deployRows"
| "forEachDeployment lvl options (d # ds) deployRows =
     (case deploymentCallback lvl options d deployRows of
        Inl e \<Rightarrow> Inl e
      | Inr deployRows' \<Rightarrow> forEachDeployment lvl options ds deployRows')"

subsection \<open>Headers: section assembly (lines 203 to 352)\<close>

text \<open>Line 203.\<close>

definition leftPadOf :: "'a GasReporterOptions_scheme \<Rightarrow> string" where
  "leftPadOf options = (if rst options then ''  '' else [])"

text \<open>Lines 227 to 233.\<close>

definition title :: "nat \<Rightarrow> 'a GasReporterOptions_scheme \<Rightarrow> HorizontalTableRow" where
  "title lvl options =
     [cell (Some HLeft) (numberOfCols options)
        (CText (chalk lvl GreenBold (Lit ''Solidity and Network Configuration'')))]"

text \<open>Lines 238 to 267. The block limit goes through \<open>commify\<close>, which fails when it
  is \<^verbatim>\<open>undefined\<close>.\<close>

definition solcConfig ::
    "nat \<Rightarrow> 'a GasReporterOptions_scheme \<Rightarrow> 'h HardhatRuntimeEnvironment_scheme \<Rightarrow>
     error + HorizontalTableRow" where
  "solcConfig lvl options hre =
     (let solc = solcInfo hre in
      case commifyOpt (blockGasLimit hre) of
        Inl e \<Rightarrow> Inl e
      | Inr limit \<Rightarrow>
          Inr [cell (Some HLeft) 2 (CText (chalk lvl Cyan (Lit (''Solidity: '' @ version solc)))),
               cell (Some HLeft) 1 (CText (chalk lvl Cyan (Lit (''Optimizer: '' @ optimizer solc)))),
               cell (Some HLeft) 1
                 (CText (chalk lvl Cyan (Lit (''viaIR: '' @ (if viaIR solc then ''true'' else ''false''))))),
               cell (Some HLeft) 1 (CText (chalk lvl Cyan (Lit (''Runs: '' @ runs solc)))),
               cell (Some HCenter) (blockLimitColumnWidth options)
                 (CText (chalk lvl Cyan (Lit (''Block limit: '' @ limit @ '' gas''))))])"

text \<open>Lines 272 to 318.\<close>

definition networkConfig ::
    "'e Env_scheme \<Rightarrow> nat \<Rightarrow> GasReporterOptions \<Rightarrow> HorizontalTableRow" where
  "networkConfig env lvl options =
     (if truthyString (tokenPrice options) \<and> truthyRat (gasPrice options) then
        (let v = getCommonTableVals env options in
           [cell (Some HLeft) 2 (CText (chalk lvl Cyan (Lit (''Network: '' @ network v)))),
            cell (Some HLeft) 2
              (CText (chalk lvl Cyan (Lit (''L1: '' @ l1gwei v @ '' gwei '' @ l1gweiNote v))))]
           @ (if L2 options \<noteq> None
              then [cell (Some HLeft) 2
                      (CText (chalk lvl Cyan (Lit (''L2: '' @ l2gwei v @ '' gwei '' @ l2gweiNote v))))]
              else [cell None 1 (CText (Lit '' ''))])
           @ [cell (Some HCenter) 2
                (CText (chalk lvl Magenta (Lit (rate v @ '' '' @ currency_v v @ ''/'' @ token v))))])
      else [cell (Some HLeft) (numberOfCols options) (CText (chalk lvl GreenBold (Lit ''Methods'')))])"

text \<open>Lines 323 to 334. \<open>options.currency!.toLowerCase()\<close> is a type error when the
  currency is \<^verbatim>\<open>undefined\<close>.\<close>

definition methodsHeader ::
    "nat \<Rightarrow> 'a GasReporterOptions_scheme \<Rightarrow> error + HorizontalTableRow" where
  "methodsHeader lvl options =
     (case currency options of
        None \<Rightarrow> Inl TypeError
      | Some cur \<Rightarrow>
          Inr ([cell (Some HLeft) 2 (CText (chalk lvl GreenBold (Lit ''Contracts / Methods''))),
                cell (Some HLeft) 1 (CText (chalk lvl Bold (Lit ''Min''))),
                cell (Some HLeft) 1 (CText (chalk lvl Bold (Lit ''Max''))),
                cell (Some HLeft) 1 (CText (chalk lvl Bold (Lit (executionGasAverageTitle options))))]
               @ (if L2 options \<noteq> None
                  then [cell (Some HLeft) 1 (CText (chalk lvl Bold (Lit (calldataGasAverageTitle options))))]
                  else [])
               @ [cell (Some HLeft) 1 (CText (chalk lvl Bold (Lit ''# calls''))),
                  cell (Some HLeft) 1 (CText (chalk lvl Bold (Lit (toLowerCase cur @ '' (avg)''))))]))"

text \<open>Lines 339 to 352.\<close>

definition keyTitle :: "nat \<Rightarrow> 'a GasReporterOptions_scheme \<Rightarrow> HorizontalTableRow" where
  "keyTitle lvl options =
     [cell (Some HLeft) (numberOfCols options) (CText (chalk lvl GreenBold (Lit ''Key'')))]"

definition keyCall :: "'e Env_scheme \<Rightarrow> nat \<Rightarrow> GasReporterOptions \<Rightarrow> HorizontalTableRow" where
  "keyCall env lvl options =
     [cell (Some HLeft) (numberOfCols options)
        (CText (Cat (chalk lvl MagentaBold (Lit UNICODE_CIRCLE))
                    (Lit (''  '' @ intrinsicMsg (getCommonTableVals env options)))))]"

definition keyAir :: "'e Env_scheme \<Rightarrow> nat \<Rightarrow> GasReporterOptions \<Rightarrow> HorizontalTableRow" where
  "keyAir env lvl options =
     [cell (Some HLeft) (numberOfCols options)
        (CText (Cat (chalk lvl MagentaBold (Lit UNICODE_TRIANGLE))
                    (Lit (''  '' @ nonZeroMsg (getCommonTableVals env options)))))]"

subsection \<open>Final table assembly (lines 357 to 391)\<close>

text \<open>Lines 362 to 366: the comparator of \<open>methodRows.sort\<close>; \<open>a || b\<close> is \<open>a\<close>
  unless \<open>a\<close> is zero.\<close>

definition sectionCompare :: "'e Env_scheme \<Rightarrow> Section \<Rightarrow> Section \<Rightarrow> int" where
  "sectionCompare env a b =
     (let contractName' = localeCompare env (contractName a) (contractName b);
          methodName' = localeCompare env (methodName a) (methodName b)
      in if contractName' \<noteq> 0 then contractName' else methodName')"

text \<open>Lines 373 to 382.\<close>

definition deploymentsSubtitle :: "nat \<Rightarrow> 'a GasReporterOptions_scheme \<Rightarrow> HorizontalTableRow" where
  "deploymentsSubtitle lvl options =
     [cell (Some HLeft) 3 (CText (chalk lvl GreenBold (Lit ''Deployments''))),
      cell (Some HRight) (deploymentsTitleSpacerWidth options) (CText (Lit [])),
      cell (Some HLeft) 1 (CText (chalk lvl Bold (Lit ''% of limit''))),
      cell (Some HLeft) 1 (CText (Lit []))]"

text \<open>The rows pushed on the table, in this order, from the sections of the two loops.\<close>

definition tableRows ::
    "'e Env_scheme \<Rightarrow> nat \<Rightarrow> GasReporterOptions \<Rightarrow> HorizontalTableRow \<Rightarrow> HorizontalTableRow \<Rightarrow>
     Section list \<Rightarrow> HorizontalTableRow list \<Rightarrow> HorizontalTableRow list" where
  "tableRows env lvl options solcRow header methodRows deployRows =
     [title lvl options, solcRow, networkConfig env lvl options, header]
     @ map row (sortBy (sectionCompare env) methodRows)
     @ (if deployRows \<noteq> [] then deploymentsSubtitle lvl options # deployRows else [])
     @ [keyTitle lvl options, keyCall env lvl options, keyAir env lvl options]"

text \<open>Lines 203 to 391, after the two loops.\<close>

definition assembleTable ::
    "'e Env_scheme \<Rightarrow> nat \<Rightarrow> GasReporterOptions \<Rightarrow> 'h HardhatRuntimeEnvironment_scheme \<Rightarrow>
     Section list \<Rightarrow> HorizontalTableRow list \<Rightarrow> error + Table" where
  "assembleTable env lvl options hre methodRows deployRows =
     (case solcConfig lvl options hre of
        Inl e \<Rightarrow> Inl e
      | Inr solcRow \<Rightarrow>
          (case methodsHeader lvl options of
             Inl e \<Rightarrow> Inl e
           | Inr header \<Rightarrow>
               Inr \<lparr>colWidths = [numberOfCols options],
                    leftPad = leftPadOf options,
                    rows = tableRows env lvl options solcRow header methodRows deployRows\<rparr>))"

subsection \<open>generateTerminalTextTable\<close>

text \<open>
  The call returns the table or the error it throws, together with the caller's
  \<open>data\<close> and the process state as the call leaves them. The colour level is set
  first; the deployments are sorted after the loop over the methods, so an error in
  that loop leaves them as they were.
\<close>

definition generateTerminalTextTable ::
    "'e Env_scheme \<Rightarrow> 'h HardhatRuntimeEnvironment_scheme \<Rightarrow>
     'g GasData_scheme \<Rightarrow> GasReporterOptions \<Rightarrow> 'p Process_scheme \<Rightarrow>
     (error + Table) \<times> 'g GasData_scheme \<times> 'p Process_scheme" where
  "generateTerminalTextTable env hre data options proc =
     (let lvl = colorLevel options;
          proc1 = proc\<lparr>chalkLevel := lvl\<rparr>
      in case forEachMethod env lvl options (methods data) ([], []) of
           Inl e \<Rightarrow> (Inl e, data, proc1)
         | Inr acc \<Rightarrow>
             (let methodRows = snd acc;
                  data1 = data\<lparr>deployments := sortBy (deploymentCompare env) (deployments data)\<rparr>
              in case forEachDeployment lvl options (deployments data1) [] of
                   Inl e \<Rightarrow> (Inl e, data1, proc1)
                 | Inr deployRows \<Rightarrow>
                     (assembleTable env lvl options hre methodRows deployRows, data1, proc1)))"

subsection \<open>Properties of a table\<close>

text \<open>The total column span of a row.\<close>

definition totalSpan :: "HorizontalTableRow \<Rightarrow> nat" where
  "totalSpan r = sum_list (map colSpan r)"

subsection \<open>A sample run\<close>

text \<open>
  A token contract with a called method (two calls of 21000 and 23000 gas), a method
  called once, and a method never called; three deployments out of alphabetical
  order, one of them never deployed.
\<close>

definition vals0 :: CommonTableVals where
  "vals0 =
     \<lparr>l1gwei = ''20'', l2gwei = ''0.01'', l1gweiNote = [], l2gweiNote = [],
      network = ''ETHEREUM'', rate = ''2000.00'', currency_v = ''usd'', token = ''eth'',
      intrinsicMsg = ''Execution gas includes intrinsic gas overhead'',
      nonZeroMsg = ''Cost was non-zero but below the precision setting''\<rparr>"

definition env0 :: Env where
  "env0 =
     \<lparr>localeCompare = codeUnitCompare,
      getCommonTableVals = (\<lambda>options. vals0),
      indentText = (\<lambda>s. ''  '' @ s)\<rparr>"

definition hre0 :: HardhatRuntimeEnvironment where
  "hre0 =
     \<lparr>solcInfo = \<lparr>version = ''0.8.24'', optimizer = ''true'', viaIR = False, runs = ''200''\<rparr>,
      blockGasLimit = Some 30000000\<rparr>"

definition options0 :: GasReporterOptions where
  "options0 =
     \<lparr>noColors = False, outputFile = None, darkMode = False, L2 = None,
      showMethodSig = False, showUncalledMethods = False, currencyDisplayPrecision = 2,
      rst = False, tokenPrice = Some ''2000.00'', gasPrice = Some 20,
      currency = Some ''USD''\<rparr>"

definition transfer :: MethodDataItem where
  "transfer =
     \<lparr>contract = ''Token'', method_m = ''transfer'', fnSig = ''transfer(address,uint256)'',
      gasData = [21000, 23000], numberOfCalls = 2, executionGasAverage = Some 22000,
      calldataGasAverage = None, min_m = Some 21000, max_m = Some 23000,
      cost = Some (88 / 100)\<rparr>"

definition approve :: MethodDataItem where
  "approve =
     \<lparr>contract = ''Token'', method_m = ''approve'', fnSig = ''approve(address,uint256)'',
      gasData = [46000], numberOfCalls = 1, executionGasAverage = Some 46000,
      calldataGasAverage = None, min_m = Some 46000, max_m = Some 46000,
      cost = Some (1 / 1000)\<rparr>"

definition mint :: MethodDataItem where
  "mint =
     \<lparr>contract = ''Token'', method_m = ''mint'', fnSig = ''mint(address,uint256)'',
      gasData = [], numberOfCalls = 0, executionGasAverage = None,
      calldataGasAverage = None, min_m = None, max_m = None, cost = None\<rparr>"

definition vault :: Deployment where
  "vault =
     \<lparr>name = ''Vault'', gasData_d = [900000], executionGasAverage_d = Some 900000,
      calldataGasAverage_d = None, min_d = Some 900000, max_d = Some 900000,
      cost_d = Some 36, percent = Some 3\<rparr>"

definition token0 :: Deployment where
  "token0 =
     \<lparr>name = ''Token'', gasData_d = [1200000, 1250000], executionGasAverage_d = Some 1225000,
      calldataGasAverage_d = None, min_d = Some 1200000, max_d = Some 1250000,
      cost_d = Some 49, percent = Some (41 / 10)\<rparr>"

definition unused :: Deployment where
  "unused =
     \<lparr>name = ''Registry'', gasData_d = [], executionGasAverage_d = None,
      calldataGasAverage_d = None, min_d = None, max_d = None,
      cost_d = None, percent = None\<rparr>"

definition data0 :: GasData where
  "data0 = \<lparr>methods = [Some mint, Some transfer, None, Some approve],
            deployments = [vault, token0, unused]\<rparr>"

definition proc0 :: Process where
  "proc0 = \<lparr>chalkLevel = 3\<rparr>"

definition optionsL2 :: GasReporterOptions where
  "optionsL2 = options0\<lparr>L2 := Some ''optimism''\<rparr>"

text \<open>The cells of a method row or a deployment row: the name comes first, then the
  minimum, the maximum and the average; the cost comes last.\<close>

definition minCell :: "HorizontalTableRow \<Rightarrow> content" where
  "minCell r = content (r ! 1)"

definition maxCell :: "HorizontalTableRow \<Rightarrow> content" where
  "maxCell r = content (r ! 2)"


definition costCell :: "HorizontalTableRow \<Rightarrow> content" where
  "costCell r = content (last r)"

text \<open>A method whose one call used no gas, an uncalled method that carries a cost, and
  options with a gas price of zero.\<close>

definition ping :: MethodDataItem where
  "ping =
     \<lparr>contract = ''Token'', method_m = ''ping'', fnSig = ''ping()'',
      gasData = [0], numberOfCalls = 1, executionGasAverage = Some 0,
      calldataGasAverage = None, min_m = Some 0, max_m = Some 0, cost = Some 0\<rparr>"

definition burn :: MethodDataItem where
  "burn =
     \<lparr>contract = ''Token'', method_m = ''burn'', fnSig = ''burn(uint256)'',
      gasData = [], numberOfCalls = 0, executionGasAverage = None,
      calldataGasAverage = None, min_m = None, max_m = None, cost = Some (1 / 1000)\<rparr>"

definition optionsUncalled :: GasReporterOptions where
  "optionsUncalled = options0\<lparr>showUncalledMethods := True\<rparr>"

definition optionsFreeGas :: GasReporterOptions where
  "optionsFreeGas = options0\<lparr>gasPrice := Some 0\<rparr>"

definition library0 :: Deployment where
  "library0 =
     \<lparr>name = ''Lib'', gasData_d = [50000], executionGasAverage_d = Some 50000,
      calldataGasAverage_d = None, min_d = Some 50000, max_d = Some 50000,
      cost_d = Some (1 / 500), percent = Some (1 / 5)\<rparr>"

definition optionsNoPrices :: GasReporterOptions where
  "optionsNoPrices = options0\<lparr>tokenPrice := None, gasPrice := None\<rparr>"




text \<open>A snapshot whose method has gas data but no average, so that the loop over the
  methods throws; its deployments are out of order.\<close>

definition noAverage :: MethodDataItem where
  "noAverage =
     \<lparr>contract = ''Token'', method_m = ''pause'', fnSig = ''pause()'',
      gasData = [27000], numberOfCalls = 1, executionGasAverage = None,
      calldataGasAverage = None, min_m = Some 27000, max_m = Some 27000, cost = None\<rparr>"

definition dataNoAverage :: GasData where
  "dataNoAverage = \<lparr>methods = [Some noAverage], deployments = [vault, token0]\<rparr>"

section \<open>Verification\<close>

subsection \<open>Sorting\<close>

lemma set_insortBy: "set (insortBy cmp x xs) = insert x (set xs)"
  by (induction xs) auto

lemma mset_insortBy: "mset (insortBy cmp x xs) = add_mset x (mset xs)"
  by (induction xs) auto

lemma mset_sortBy: "mset (sortBy cmp xs) = mset xs"
  unfolding sortBy_def by (induction xs) (simp_all add: mset_insortBy)

lemma set_sortBy: "set (sortBy cmp xs) = set xs"
  using mset_sortBy [of cmp xs] by (metis set_mset_mset)

text \<open>With a consistent comparator the result is sorted.\<close>

lemma sorted_insortBy:
  assumes "consistent cmp" and "sorted_wrt (\<lambda>a b. cmp a b \<le> 0) xs"
  shows "sorted_wrt (\<lambda>a b. cmp a b \<le> 0) (insortBy cmp x xs)"
  using assms(2)
proof (induction xs)
  case Nil
  then show ?case by simp
next
  case (Cons y ys)
  from assms(1) have
    flip: "\<And>a b. (cmp a b < 0) = (0 < cmp b a)" and
    trans: "\<And>a b c. cmp a b \<le> 0 \<Longrightarrow> cmp b c \<le> 0 \<Longrightarrow> cmp a c \<le> 0"
    unfolding consistent_def by blast+
  show ?case
  proof (cases "cmp x y \<le> 0")
    case True
    with Cons.prems trans have "\<forall>z \<in> set (y # ys). cmp x z \<le> 0"
      by auto
    with True Cons.prems show ?thesis by simp
  next
    case False
    then have "cmp y x \<le> 0" using flip [of y x] by simp
    with False Cons show ?thesis
      by (auto simp: set_insortBy)
  qed
qed

lemma sorted_sortBy:
  "consistent cmp \<Longrightarrow> sorted_wrt (\<lambda>a b. cmp a b \<le> 0) (sortBy cmp xs)"
  unfolding sortBy_def by (induction xs) (simp_all add: sorted_insortBy)

lemma consistent_deploymentCompare:
  "consistent (localeCompare env) \<Longrightarrow> consistent (deploymentCompare env)"
  unfolding consistent_def deploymentCompare_def by blast

lemma consistent_codeUnitCompare: "consistent codeUnitCompare"
  unfolding consistent_def codeUnitCompare_def by auto

subsection \<open>The call, taken apart\<close>

lemma generate_Inr_iff:
  "generateTerminalTextTable env hre data options proc = (Inr t, d, p) \<longleftrightarrow>
     (\<exists>acc deployRows.
        forEachMethod env (colorLevel options) options (methods data) ([], []) = Inr acc \<and>
        forEachDeployment (colorLevel options) options
          (sortBy (deploymentCompare env) (deployments data)) [] = Inr deployRows \<and>
        assembleTable env (colorLevel options) options hre (snd acc) deployRows = Inr t \<and>
        d = data\<lparr>deployments := sortBy (deploymentCompare env) (deployments data)\<rparr> \<and>
        p = proc\<lparr>chalkLevel := colorLevel options\<rparr>)"
  unfolding generateTerminalTextTable_def Let_def
  by (auto split: sum.splits)

lemma assembleTable_Inr_iff:
  "assembleTable env lvl options hre methodRows deployRows = Inr t \<longleftrightarrow>
     (\<exists>solcRow header.
        solcConfig lvl options hre = Inr solcRow \<and>
        methodsHeader lvl options = Inr header \<and>
        t = \<lparr>colWidths = [numberOfCols options], leftPad = leftPadOf options,
             rows = tableRows env lvl options solcRow header methodRows deployRows\<rparr>)"
  unfolding assembleTable_def by (auto split: sum.splits)

lemma table_rows:
  assumes "generateTerminalTextTable env hre data options proc = (Inr t, d, p)"
  shows "\<exists>acc deployRows solcRow header.
     forEachMethod env (colorLevel options) options (methods data) ([], []) = Inr acc \<and>
     forEachDeployment (colorLevel options) options
       (sortBy (deploymentCompare env) (deployments data)) [] = Inr deployRows \<and>
     solcConfig (colorLevel options) options hre = Inr solcRow \<and>
     methodsHeader (colorLevel options) options = Inr header \<and>
     rows t = tableRows env (colorLevel options) options solcRow header (snd acc) deployRows"
  using assms by (auto simp: generate_Inr_iff assembleTable_Inr_iff)

subsection \<open>Column spans\<close>

lemma totalSpan_title: "totalSpan (title lvl options) = numberOfCols options"
  by (simp add: totalSpan_def title_def cell_def)

lemma totalSpan_solcConfig:
  "solcConfig lvl options hre = Inr r \<Longrightarrow> totalSpan r = numberOfCols options"
  by (auto simp: totalSpan_def solcConfig_def Let_def cell_def numberOfCols_def
      blockLimitColumnWidth_def split: sum.splits)

lemma totalSpan_networkConfig: "totalSpan (networkConfig env lvl options) = numberOfCols options"
  by (simp add: totalSpan_def networkConfig_def Let_def cell_def numberOfCols_def)

lemma totalSpan_methodsHeader:
  "methodsHeader lvl options = Inr r \<Longrightarrow> totalSpan r = numberOfCols options"
  by (auto simp: totalSpan_def methodsHeader_def cell_def numberOfCols_def split: option.splits)

lemma totalSpan_keys:
  "totalSpan (keyTitle lvl options) = numberOfCols options"
  "totalSpan (keyCall env lvl options) = numberOfCols options"
  "totalSpan (keyAir env lvl options) = numberOfCols options"
  by (simp_all add: totalSpan_def keyTitle_def keyCall_def keyAir_def cell_def)

lemma totalSpan_deploymentsSubtitle:
  "totalSpan (deploymentsSubtitle lvl options) = numberOfCols options"
  by (simp add: totalSpan_def deploymentsSubtitle_def cell_def numberOfCols_def
      deploymentsTitleSpacerWidth_def)

lemma totalSpan_contractNameSection:
  "totalSpan (row (contractNameSection lvl options c)) = numberOfCols options"
  by (simp add: totalSpan_def contractNameSection_def cell_def numberOfCols_def
      contractTitleSpacerWidth_def)

lemma totalSpan_methodRow: "totalSpan (methodRow env lvl options m stats) = numberOfCols options"
  by (simp add: totalSpan_def methodRow_def cell_def numberOfCols_def)

lemma totalSpan_deploymentRow:
  "deploymentRow lvl options d = Inr r \<Longrightarrow> totalSpan r = numberOfCols options"
  by (auto simp: totalSpan_def deploymentRow_def cell_def numberOfCols_def Let_def
      split: sum.splits)

lemma methodCallback_spans:
  assumes "methodCallback env lvl options entry acc = Inr acc'"
    and "\<forall>s \<in> set (snd acc). totalSpan (row s) = numberOfCols options"
  shows "\<forall>s \<in> set (snd acc'). totalSpan (row s) = numberOfCols options"
  using assms
  by (auto simp: methodCallback_def methodSection_def Let_def totalSpan_contractNameSection
      totalSpan_methodRow split: option.splits sum.splits if_splits)

lemma forEachMethod_spans:
  "forEachMethod env lvl options entries acc = Inr acc' \<Longrightarrow>
   \<forall>s \<in> set (snd acc). totalSpan (row s) = numberOfCols options \<Longrightarrow>
   \<forall>s \<in> set (snd acc'). totalSpan (row s) = numberOfCols options"
proof (induction entries arbitrary: acc)
  case Nil
  then show ?case by simp
next
  case (Cons entry entries)
  from Cons.prems(1) obtain acc1 where
    step: "methodCallback env lvl options entry acc = Inr acc1" and
    rest: "forEachMethod env lvl options entries acc1 = Inr acc'"
    by (auto split: sum.splits)
  from methodCallback_spans [OF step Cons.prems(2)] Cons.IH [OF rest] show ?case by blast
qed

lemma forEachDeployment_spans:
  "forEachDeployment lvl options ds deployRows = Inr deployRows' \<Longrightarrow>
   \<forall>r \<in> set deployRows. totalSpan r = numberOfCols options \<Longrightarrow>
   \<forall>r \<in> set deployRows'. totalSpan r = numberOfCols options"
proof (induction ds arbitrary: deployRows)
  case Nil
  then show ?case by simp
next
  case (Cons d ds)
  from Cons.prems(1) obtain rows1 where
    step: "deploymentCallback lvl options d deployRows = Inr rows1" and
    rest: "forEachDeployment lvl options ds rows1 = Inr deployRows'"
    by (auto split: sum.splits)
  from step Cons.prems(2) have "\<forall>r \<in> set rows1. totalSpan r = numberOfCols options"
    by (auto simp: deploymentCallback_def totalSpan_deploymentRow split: if_splits sum.splits)
  with Cons.IH [OF rest] show ?case by blast
qed

subsection \<open>When the call returns a table\<close>

text \<open>The call throws only inside \<open>commify\<close>, on an average or a block limit that
  is \<^verbatim>\<open>undefined\<close>, and on a currency that is \<^verbatim>\<open>undefined\<close>.\<close>

lemma assembleTable_Inr:
  "blockGasLimit hre = Some n \<Longrightarrow> currency options = Some c \<Longrightarrow>
   \<exists>t. assembleTable env lvl options hre methodRows deployRows = Inr t"
  by (simp add: assembleTable_Inr_iff solcConfig_def Let_def methodsHeader_def commifyOpt_def)

lemma methodCallback_succeeds:
  assumes "\<forall>m. entry = Some m \<longrightarrow> gasData m \<noteq> [] \<longrightarrow> executionGasAverage m \<noteq> None"
  shows "\<exists>acc'. methodCallback env lvl options entry acc = Inr acc'"
  using assms
  by (cases entry) (auto simp: methodCallback_def methodStats_def commifyOpt_def Let_def)

lemma forEachMethod_succeeds:
  assumes "\<forall>m. Some m \<in> set entries \<longrightarrow> gasData m \<noteq> [] \<longrightarrow> executionGasAverage m \<noteq> None"
  shows "\<exists>acc'. forEachMethod env lvl options entries acc = Inr acc'"
  using assms
proof (induction entries arbitrary: acc)
  case Nil
  then show ?case by simp
next
  case (Cons entry entries)
  from Cons.prems methodCallback_succeeds [of entry env lvl options acc]
  obtain acc1 where "methodCallback env lvl options entry acc = Inr acc1"
    by auto
  moreover from Cons.IH [of acc1] Cons.prems
  obtain acc' where "forEachMethod env lvl options entries acc1 = Inr acc'"
    by auto
  ultimately show ?case by simp
qed

lemma deploymentCallback_succeeds:
  assumes "gasData_d d \<noteq> [] \<longrightarrow> executionGasAverage_d d \<noteq> None"
  shows "\<exists>deployRows'. deploymentCallback lvl options d deployRows = Inr deployRows'"
  using assms
  by (auto simp: deploymentCallback_def deploymentRow_def commifyOpt_def Let_def)

lemma forEachDeployment_succeeds:
  assumes "\<forall>d \<in> set ds. gasData_d d \<noteq> [] \<longrightarrow> executionGasAverage_d d \<noteq> None"
  shows "\<exists>deployRows'. forEachDeployment lvl options ds deployRows = Inr deployRows'"
  using assms
proof (induction ds arbitrary: deployRows)
  case Nil
  then show ?case by simp
next
  case (Cons d ds)
  from Cons.prems deploymentCallback_succeeds [of d lvl options deployRows]
  obtain rows1 where "deploymentCallback lvl options d deployRows = Inr rows1"
    by auto
  moreover from Cons.IH [of rows1] Cons.prems
  obtain deployRows' where "forEachDeployment lvl options ds rows1 = Inr deployRows'"
    by auto
  ultimately show ?case by simp
qed

lemma generate_succeeds:
  assumes "\<forall>m. Some m \<in> set (methods data) \<longrightarrow> gasData m \<noteq> [] \<longrightarrow> executionGasAverage m \<noteq> None"
    and "\<forall>d \<in> set (deployments data). gasData_d d \<noteq> [] \<longrightarrow> executionGasAverage_d d \<noteq> None"
    and "blockGasLimit hre = Some n" and "currency options = Some c"
  shows "\<exists>t. generateTerminalTextTable env hre data options proc =
     (Inr t, data\<lparr>deployments := sortBy (deploymentCompare env) (deployments data)\<rparr>,
      proc\<lparr>chalkLevel := colorLevel options\<rparr>)"
proof -
  from forEachMethod_succeeds [OF assms(1)]
  obtain acc where
    "forEachMethod env (colorLevel options) options (methods data) ([], []) = Inr acc"
    by blast
  moreover from assms(2)
  have "\<forall>d \<in> set (sortBy (deploymentCompare env) (deployments data)).
      gasData_d d \<noteq> [] \<longrightarrow> executionGasAverage_d d \<noteq> None"
    by (simp add: set_sortBy)
  from forEachDeployment_succeeds [OF this]
  obtain deployRows where
    "forEachDeployment (colorLevel options) options
       (sortBy (deploymentCompare env) (deployments data)) [] = Inr deployRows"
    by blast
  moreover from assembleTable_Inr [OF assms(3,4)]
  obtain t where
    "assembleTable env (colorLevel options) options hre (snd acc) deployRows = Inr t"
    by blast
  ultimately show ?thesis
    by (auto simp: generate_Inr_iff)
qed

subsection \<open>The sample run\<close>

lemmas sample_defs =
  env0_def hre0_def data0_def options0_def optionsL2_def proc0_def vals0_def
  transfer_def approve_def mint_def vault_def token0_def unused_def
  ping_def burn_def optionsUncalled_def optionsFreeGas_def library0_def optionsNoPrices_def

lemmas stats_defs =
  methodStats_def commifyOpt_def commify_def decimal.simps commifyGroups.simps digit_def
  belowPrecision_def getSmallestPrecisionVal_def costToString_def minMax_def
  truthyNat_def dash_def chalk_def

lemmas methods_defs =
  methodCallback_def methodSection_def contractNameSection_def optionalColor_def
  contractTitleSpacerWidth_def fnName_def methodRow_def cell_def

lemmas deployments_defs =
  deploymentCompare_def sortBy_def codeUnitCompare_def deploymentCallback_def
  deploymentRow_def percentText_def cell_def

lemma sorted_deployments0:
  "sortBy (deploymentCompare env0) (deployments data0) = [unused, token0, vault]"
  by (simp add: sample_defs deployments_defs)

lemma run_data0:
  assumes "currency options = Some c"
  shows "\<exists>t. generateTerminalTextTable env0 hre0 data0 options proc0 =
     (Inr t, data0\<lparr>deployments := [unused, token0, vault]\<rparr>,
      proc0\<lparr>chalkLevel := colorLevel options\<rparr>)"
proof -
  have "\<forall>m. Some m \<in> set (methods data0) \<longrightarrow> gasData m \<noteq> [] \<longrightarrow> executionGasAverage m \<noteq> None"
    by (auto simp: data0_def mint_def transfer_def approve_def)
  moreover have "\<forall>d \<in> set (deployments data0). gasData_d d \<noteq> [] \<longrightarrow> executionGasAverage_d d \<noteq> None"
    by (simp add: data0_def vault_def token0_def unused_def)
  moreover have "blockGasLimit hre0 = Some 30000000"
    by (simp add: hre0_def)
  ultimately show ?thesis
    using generate_succeeds [of data0 hre0 _ options c env0 proc0] assms
    by (simp add: sorted_deployments0)
qed

lemma run0:
  "\<exists>t. generateTerminalTextTable env0 hre0 data0 options0 proc0 =
     (Inr t, data0\<lparr>deployments := [unused, token0, vault]\<rparr>, proc0\<lparr>chalkLevel := 1\<rparr>)"
  using run_data0 [of options0 "''USD''"] by (simp add: options0_def colorLevel_def)

lemma runL2:
  "\<exists>t. generateTerminalTextTable env0 hre0 data0 optionsL2 proc0 =
     (Inr t, data0\<lparr>deployments := [unused, token0, vault]\<rparr>, proc0\<lparr>chalkLevel := 1\<rparr>)"
  using run_data0 [of optionsL2 "''USD''"]
  by (simp add: optionsL2_def options0_def colorLevel_def)

subsection \<open>C1: every row has the same total column span\<close>

text \<open>
  C1. Whenever the call returns a table, every row of it (title, compiler row,
  network row, methods header, contract headers, method rows, deployments subtitle,
  deployment rows, key rows) has cells whose column spans add up to
  \<open>numberOfCols\<close>, a value fixed by \<open>options.L2\<close> alone: 7 when it is unset and 8
  when it is set.
\<close>

theorem every_row_spans_numberOfCols:
  assumes "generateTerminalTextTable env hre data options proc = (Inr t, d, p)"
  shows "(\<forall>r \<in> set (rows t). totalSpan r = numberOfCols options) \<and>
         numberOfCols options = (if L2 options = None then 7 else 8)"
proof -
  let ?lvl = "colorLevel options"
  from assms obtain acc deployRows solcRow header where
    m: "forEachMethod env ?lvl options (methods data) ([], []) = Inr acc" and
    dp: "forEachDeployment ?lvl options (sortBy (deploymentCompare env) (deployments data)) []
          = Inr deployRows" and
    s: "solcConfig ?lvl options hre = Inr solcRow" and
    h: "methodsHeader ?lvl options = Inr header" and
    t: "rows t = tableRows env ?lvl options solcRow header (snd acc) deployRows"
    by (auto simp: generate_Inr_iff assembleTable_Inr_iff)
  have ms: "\<forall>s \<in> set (snd acc). totalSpan (row s) = numberOfCols options"
    using forEachMethod_spans [OF m] by simp
  have ds: "\<forall>r \<in> set deployRows. totalSpan r = numberOfCols options"
    using forEachDeployment_spans [OF dp] by simp
  have "\<forall>r \<in> set (rows t). totalSpan r = numberOfCols options"
    unfolding t tableRows_def
    using ms ds totalSpan_solcConfig [OF s] totalSpan_methodsHeader [OF h]
    by (auto simp: set_sortBy totalSpan_title totalSpan_networkConfig totalSpan_keys
        totalSpan_deploymentsSubtitle)
  then show ?thesis by (simp add: numberOfCols_def)
qed

theorem every_row_spans_numberOfCols_witness:
  "(\<exists>t d p. generateTerminalTextTable env0 hre0 data0 options0 proc0 = (Inr t, d, p) \<and>
      (\<forall>r \<in> set (rows t). totalSpan r = 7)) \<and>
   (\<exists>t d p. generateTerminalTextTable env0 hre0 data0 optionsL2 proc0 = (Inr t, d, p) \<and>
      (\<forall>r \<in> set (rows t). totalSpan r = 8))"
proof
  from run0 obtain t d p where
    r: "generateTerminalTextTable env0 hre0 data0 options0 proc0 = (Inr t, d, p)"
    by blast
  from every_row_spans_numberOfCols [OF r]
  have "\<forall>r \<in> set (rows t). totalSpan r = 7"
    by (simp add: numberOfCols_def options0_def)
  with r show "\<exists>t d p. generateTerminalTextTable env0 hre0 data0 options0 proc0 = (Inr t, d, p) \<and>
      (\<forall>r \<in> set (rows t). totalSpan r = 7)"
    by blast
next
  from runL2 obtain t d p where
    r: "generateTerminalTextTable env0 hre0 data0 optionsL2 proc0 = (Inr t, d, p)"
    by blast
  from every_row_spans_numberOfCols [OF r]
  have "\<forall>r \<in> set (rows t). totalSpan r = 8"
    by (simp add: numberOfCols_def optionsL2_def options0_def)
  with r show "\<exists>t d p. generateTerminalTextTable env0 hre0 data0 optionsL2 proc0 = (Inr t, d, p) \<and>
      (\<forall>r \<in> set (rows t). totalSpan r = 8)"
    by blast
qed

subsection \<open>C9: the colour level\<close>

text \<open>
  C9. Whatever the call returns or throws, it leaves the process state as it found it
  except for the colour level of \<^verbatim>\<open>chalk\<close>, which it sets to 0 when
  \<open>options.noColors\<close> is set or an output file is configured and to 1 otherwise;
  the level is not restored. The process state is an extensible record, so the
  statement covers every other field of it.
\<close>

theorem chalk_level_set_from_options:
  "snd (snd (generateTerminalTextTable env hre data options proc)) =
     proc\<lparr>chalkLevel := (if noColors options \<or> outputFile options \<noteq> None then 0 else 1)\<rparr>"
  by (simp add: generateTerminalTextTable_def colorLevel_def Let_def split: sum.splits)

theorem chalk_level_set_from_options_witness:
  "snd (snd (generateTerminalTextTable env0 hre0 data0 options0 proc0)) = \<lparr>chalkLevel = 1\<rparr> \<and>
   snd (snd (generateTerminalTextTable env0 hre0 data0
     (options0\<lparr>outputFile := Some ''gas-report.txt''\<rparr>) proc0)) = \<lparr>chalkLevel = 0\<rparr> \<and>
   snd (snd (generateTerminalTextTable env0 hre0 data0
     (options0\<lparr>noColors := True\<rparr>) proc0)) = \<lparr>chalkLevel = 0\<rparr>"
  using chalk_level_set_from_options [of env0 hre0 data0 options0 proc0]
    chalk_level_set_from_options
      [of env0 hre0 data0 "options0\<lparr>outputFile := Some ''gas-report.txt''\<rparr>" proc0]
    chalk_level_set_from_options [of env0 hre0 data0 "options0\<lparr>noColors := True\<rparr>" proc0]
  by (simp add: options0_def proc0_def)

subsection \<open>C2: what the call does to the snapshot\<close>

text \<open>
  C2 says that the methods and the deployments of the snapshot, with their order, are
  the same before and after the call. Line 151 sorts \<open>data.deployments\<close> in place:
  in the sample run the caller's deployments Vault, Token, Registry are left as
  Registry, Token, Vault.
\<close>

theorem snapshot_unchanged_counterexample:
  "fst (snd (generateTerminalTextTable env0 hre0 data0 options0 proc0)) \<noteq> data0 \<and>
   map name (deployments data0) = [''Vault'', ''Token'', ''Registry''] \<and>
   map name (deployments (fst (snd (generateTerminalTextTable env0 hre0 data0 options0 proc0))))
     = [''Registry'', ''Token'', ''Vault'']"
proof -
  from run0 obtain t where
    "generateTerminalTextTable env0 hre0 data0 options0 proc0 =
       (Inr t, data0\<lparr>deployments := [unused, token0, vault]\<rparr>, proc0\<lparr>chalkLevel := 1\<rparr>)"
    by blast
  then show ?thesis
    by (simp add: data0_def vault_def token0_def unused_def)
qed

text \<open>
  C2, amended. The call leaves the methods of the snapshot and every other field of it
  as they were, and the deployments hold the same records as before. When the loop
  over the methods throws, the snapshot is left as it was. In every other case, and
  so whenever the call returns a table, the snapshot is left with its deployments in
  the order of the sort of line 151 and is otherwise as it was; with a consistent
  \<open>localeCompare\<close> that order is ascending by name.
\<close>

theorem snapshot_only_deployments_reordered:
  assumes "generateTerminalTextTable env hre data options proc = (r, d, p)"
  shows "methods d = methods data \<and>
         mset (deployments d) = mset (deployments data) \<and>
         d = (case forEachMethod env (colorLevel options) options (methods data) ([], []) of
                Inl e \<Rightarrow> data
              | Inr acc \<Rightarrow>
                  data\<lparr>deployments := sortBy (deploymentCompare env) (deployments data)\<rparr>) \<and>
         (\<forall>t. r = Inr t \<longrightarrow>
            d = data\<lparr>deployments := sortBy (deploymentCompare env) (deployments data)\<rparr>) \<and>
         (consistent (localeCompare env) \<longrightarrow>
            sorted_wrt (\<lambda>a b. localeCompare env (name a) (name b) \<le> 0)
              (sortBy (deploymentCompare env) (deployments data)))"
proof -
  have exact: "d =
      (case forEachMethod env (colorLevel options) options (methods data) ([], []) of
         Inl e \<Rightarrow> data
       | Inr acc \<Rightarrow>
           data\<lparr>deployments := sortBy (deploymentCompare env) (deployments data)\<rparr>)"
    using assms
    by (auto simp: generateTerminalTextTable_def Let_def split: sum.splits)
  have returned: "\<forall>t. r = Inr t \<longrightarrow>
      d = data\<lparr>deployments := sortBy (deploymentCompare env) (deployments data)\<rparr>"
    using assms by (auto simp: generate_Inr_iff)
  have ordered: "consistent (localeCompare env) \<longrightarrow>
      sorted_wrt (\<lambda>a b. localeCompare env (name a) (name b) \<le> 0)
        (sortBy (deploymentCompare env) (deployments data))"
  proof
    assume "consistent (localeCompare env)"
    from sorted_sortBy [OF consistent_deploymentCompare [OF this], of "deployments data"]
    show "sorted_wrt (\<lambda>a b. localeCompare env (name a) (name b) \<le> 0)
        (sortBy (deploymentCompare env) (deployments data))"
      by (simp add: deploymentCompare_def)
  qed
  from exact have "methods d = methods data" "mset (deployments d) = mset (deployments data)"
    by (auto simp: mset_sortBy split: sum.splits)
  with exact returned ordered show ?thesis by blast
qed

theorem snapshot_only_deployments_reordered_witness:
  "(\<exists>t d p. generateTerminalTextTable env0 hre0 data0 options0 proc0 = (Inr t, d, p) \<and>
      methods d = methods data0 \<and>
      mset (deployments d) = mset (deployments data0) \<and>
      d = data0\<lparr>deployments := [unused, token0, vault]\<rparr>) \<and>
   (\<exists>e d p. generateTerminalTextTable env0 hre0 dataNoAverage options0 proc0 = (Inl e, d, p) \<and>
      d = dataNoAverage)"
proof
  from run0 obtain t d p where
    r: "generateTerminalTextTable env0 hre0 data0 options0 proc0 = (Inr t, d, p)"
    by blast
  from snapshot_only_deployments_reordered [OF r]
  have "methods d = methods data0" "mset (deployments d) = mset (deployments data0)"
    "d = data0\<lparr>deployments := sortBy (deploymentCompare env0) (deployments data0)\<rparr>"
    by blast+
  with r show "\<exists>t d p. generateTerminalTextTable env0 hre0 data0 options0 proc0 = (Inr t, d, p) \<and>
      methods d = methods data0 \<and>
      mset (deployments d) = mset (deployments data0) \<and>
      d = data0\<lparr>deployments := [unused, token0, vault]\<rparr>"
    by (auto simp: sorted_deployments0)
next
  have thrown: "forEachMethod env0 (colorLevel options0) options0 (methods dataNoAverage) ([], [])
      = Inl InvalidArgument"
    by (simp add: dataNoAverage_def noAverage_def methodCallback_def methodStats_def
        commifyOpt_def Let_def)
  obtain r d p where
    g: "generateTerminalTextTable env0 hre0 dataNoAverage options0 proc0 = (r, d, p)"
    by (cases "generateTerminalTextTable env0 hre0 dataNoAverage options0 proc0") auto
  from g thrown have e: "r = Inl InvalidArgument"
    by (simp add: generateTerminalTextTable_def Let_def)
  from snapshot_only_deployments_reordered [OF g] thrown have "d = dataNoAverage"
    by simp
  with g e show "\<exists>e d p.
      generateTerminalTextTable env0 hre0 dataNoAverage options0 proc0 = (Inl e, d, p) \<and>
      d = dataNoAverage"
    by blast
qed

subsection \<open>C8: the network row\<close>

text \<open>
  C8 says that the third row of the table shows the network, the L1 gas price, the L2
  gas price (in L2 mode) and the rate exactly when a token price and a gas price are
  both configured. Line 274 tests the two options for truthiness: with a token price
  of "2000.00" and a gas price of 0, both configured, the row is the "Methods" banner.
\<close>

theorem network_row_counterexample:
  "tokenPrice optionsFreeGas = Some ''2000.00'' \<and> gasPrice optionsFreeGas = Some 0 \<and>
   (\<exists>t d p. generateTerminalTextTable env0 hre0 data0 optionsFreeGas proc0 = (Inr t, d, p) \<and>
      rows t ! 2 = [\<lparr>hAlign = Some HLeft, colSpan = 7,
                      content = CText (Styled GreenBold (Lit ''Methods''))\<rparr>])"
proof -
  from run_data0 [of optionsFreeGas "''USD''"] obtain t d p where
    r: "generateTerminalTextTable env0 hre0 data0 optionsFreeGas proc0 = (Inr t, d, p)"
    by (auto simp: optionsFreeGas_def options0_def)
  from table_rows [OF r] obtain acc deployRows solcRow header where
    "rows t = tableRows env0 (colorLevel optionsFreeGas) optionsFreeGas solcRow header
       (snd acc) deployRows"
    by auto
  then have "rows t ! 2 = networkConfig env0 (colorLevel optionsFreeGas) optionsFreeGas"
    by (simp add: tableRows_def)
  then have "rows t ! 2 = [\<lparr>hAlign = Some HLeft, colSpan = 7,
                      content = CText (Styled GreenBold (Lit ''Methods''))\<rparr>]"
    by (simp add: networkConfig_def optionsFreeGas_def options0_def truthyRat_def
        colorLevel_def numberOfCols_def cell_def chalk_def)
  with r show ?thesis
    by (auto simp: optionsFreeGas_def options0_def)
qed

text \<open>
  C8, amended. In a returned table the third row shows the network name, the L1 gas
  price, then the L2 gas price in L2 mode and a one-column blank cell otherwise, then
  the rate, exactly when \<open>options.tokenPrice\<close> and \<open>options.gasPrice\<close> are both
  truthy (a non-empty token price and a gas price other than zero); otherwise, and so
  when both are unset, it is the single "Methods" banner cell spanning all columns.
\<close>

theorem network_row:
  assumes "generateTerminalTextTable env hre data options proc = (Inr t, d, p)"
  shows "rows t ! 2 =
     (let lvl = colorLevel options; v = getCommonTableVals env options in
      if truthyString (tokenPrice options) \<and> truthyRat (gasPrice options) then
        [cell (Some HLeft) 2 (CText (chalk lvl Cyan (Lit (''Network: '' @ network v)))),
         cell (Some HLeft) 2
           (CText (chalk lvl Cyan (Lit (''L1: '' @ l1gwei v @ '' gwei '' @ l1gweiNote v)))),
         if L2 options \<noteq> None
         then cell (Some HLeft) 2
                (CText (chalk lvl Cyan (Lit (''L2: '' @ l2gwei v @ '' gwei '' @ l2gweiNote v))))
         else cell None 1 (CText (Lit '' '')),
         cell (Some HCenter) 2
           (CText (chalk lvl Magenta (Lit (rate v @ '' '' @ currency_v v @ ''/'' @ token v))))]
      else [cell (Some HLeft) (numberOfCols options)
              (CText (chalk lvl GreenBold (Lit ''Methods'')))])"
proof -
  from table_rows [OF assms] obtain acc deployRows solcRow header where
    "rows t = tableRows env (colorLevel options) options solcRow header (snd acc) deployRows"
    by auto
  then have "rows t ! 2 = networkConfig env (colorLevel options) options"
    by (simp add: tableRows_def)
  then show ?thesis
    by (simp add: networkConfig_def Let_def)
qed

theorem network_row_witness:
  "(\<exists>t d p. generateTerminalTextTable env0 hre0 data0 options0 proc0 = (Inr t, d, p) \<and>
      rows t ! 2 =
        [\<lparr>hAlign = Some HLeft, colSpan = 2,
           content = CText (Styled Cyan (Lit ''Network: ETHEREUM''))\<rparr>,
         \<lparr>hAlign = Some HLeft, colSpan = 2,
           content = CText (Styled Cyan (Lit ''L1: 20 gwei ''))\<rparr>,
         \<lparr>hAlign = None, colSpan = 1, content = CText (Lit '' '')\<rparr>,
         \<lparr>hAlign = Some HCenter, colSpan = 2,
           content = CText (Styled Magenta (Lit ''2000.00 usd/eth''))\<rparr>]) \<and>
   (\<exists>t d p. generateTerminalTextTable env0 hre0 data0 optionsNoPrices proc0 = (Inr t, d, p) \<and>
      rows t ! 2 = [\<lparr>hAlign = Some HLeft, colSpan = 7,
                      content = CText (Styled GreenBold (Lit ''Methods''))\<rparr>])"
proof
  from run0 obtain t d p where
    r: "generateTerminalTextTable env0 hre0 data0 options0 proc0 = (Inr t, d, p)"
    by blast
  from network_row [OF r]
  have "rows t ! 2 =
        [\<lparr>hAlign = Some HLeft, colSpan = 2,
           content = CText (Styled Cyan (Lit ''Network: ETHEREUM''))\<rparr>,
         \<lparr>hAlign = Some HLeft, colSpan = 2,
           content = CText (Styled Cyan (Lit ''L1: 20 gwei ''))\<rparr>,
         \<lparr>hAlign = None, colSpan = 1, content = CText (Lit '' '')\<rparr>,
         \<lparr>hAlign = Some HCenter, colSpan = 2,
           content = CText (Styled Magenta (Lit ''2000.00 usd/eth''))\<rparr>]"
    by (simp add: options0_def env0_def vals0_def truthyRat_def truthyString_def
        colorLevel_def cell_def chalk_def)
  with r show "\<exists>t d p. generateTerminalTextTable env0 hre0 data0 options0 proc0 = (Inr t, d, p) \<and>
      rows t ! 2 =
        [\<lparr>hAlign = Some HLeft, colSpan = 2,
           content = CText (Styled Cyan (Lit ''Network: ETHEREUM''))\<rparr>,
         \<lparr>hAlign = Some HLeft, colSpan = 2,
           content = CText (Styled Cyan (Lit ''L1: 20 gwei ''))\<rparr>,
         \<lparr>hAlign = None, colSpan = 1, content = CText (Lit '' '')\<rparr>,
         \<lparr>hAlign = Some HCenter, colSpan = 2,
           content = CText (Styled Magenta (Lit ''2000.00 usd/eth''))\<rparr>]"
    by blast
next
  from run_data0 [of optionsNoPrices "''USD''"] obtain t d p where
    r: "generateTerminalTextTable env0 hre0 data0 optionsNoPrices proc0 = (Inr t, d, p)"
    by (auto simp: optionsNoPrices_def options0_def)
  from network_row [OF r]
  have "rows t ! 2 = [\<lparr>hAlign = Some HLeft, colSpan = 7,
                      content = CText (Styled GreenBold (Lit ''Methods''))\<rparr>]"
    by (simp add: optionsNoPrices_def options0_def truthyString_def
        colorLevel_def numberOfCols_def cell_def chalk_def)
  with r show "\<exists>t d p. generateTerminalTextTable env0 hre0 data0 optionsNoPrices proc0 = (Inr t, d, p) \<and>
      rows t ! 2 = [\<lparr>hAlign = Some HLeft, colSpan = 7,
                      content = CText (Styled GreenBold (Lit ''Methods''))\<rparr>]"
    by blast
qed

subsection \<open>Rows of single records\<close>

lemma minMax_defined:
  "a \<noteq> 0 \<Longrightarrow> b \<noteq> 0 \<Longrightarrow>
   minMax lvl (Some a) (Some b) =
     (if a = b then CText (dash lvl) else CText (chalk lvl Cyan (Lit (commify a))),
      if a = b then CText (dash lvl) else CText (chalk lvl Red (Lit (commify b))))"
  by (simp add: minMax_def truthyNat_def)

lemma methodCallback_shown:
  assumes "methodCallback env lvl options (Some m) acc = Inr acc'"
    and "showUncalledMethods options \<or> 0 < numberOfCalls m"
  shows "\<exists>stats front. methodStats lvl options m = Inr stats \<and>
     snd acc' = front @ [\<lparr>row = methodRow env lvl options m stats, contractName = contract m,
                          methodName = fnName options m\<rparr>]"
  using assms
  by (auto simp: methodCallback_def methodSection_def Let_def split: sum.splits if_splits)

lemma deploymentCallback_shown:
  assumes "deploymentCallback lvl options d deployRows = Inr deployRows'"
    and "gasData_d d \<noteq> []"
  shows "\<exists>r. deploymentRow lvl options d = Inr r \<and> deployRows' = deployRows @ [r]"
  using assms
  by (auto simp: deploymentCallback_def split: sum.splits)

subsection \<open>C4: methods that were never called\<close>



subsection \<open>C5: the minimum and the maximum\<close>

text \<open>
  C5 says that a record with recorded calls and equal minimum and maximum shows the
  dash in both cells. Lines 110 and 168 fill the two cells only when the minimum and
  the maximum are both truthy: for a method whose one call used 0 gas, so that its
  minimum and maximum are both 0, the two cells stay \<^verbatim>\<open>undefined\<close>.
\<close>

theorem min_max_cells_counterexample:
  "gasData ping \<noteq> [] \<and> min_m ping = max_m ping \<and>
   (\<exists>acc'. methodCallback env0 1 options0 (Some ping) ([], []) = Inr acc' \<and>
      snd acc' \<noteq> [] \<and>
      minCell (row (last (snd acc'))) = CUndefined \<and>
      maxCell (row (last (snd acc'))) = CUndefined \<and>
      CUndefined \<noteq> CText (dash 1))"
  by (simp add: ping_def options0_def env0_def stats_defs methods_defs minCell_def maxCell_def)

text \<open>
  C5, amended. For every method or deployment record whose recorded calls are
  non-empty and whose minimum and maximum are both defined and not zero: when they
  are equal, the minimum cell and the maximum cell of its row are both the dash
  placeholder; when they differ, the minimum cell is the minimum with thousands
  separators through \<^verbatim>\<open>chalk.cyan\<close> and the maximum cell is the maximum
  through \<^verbatim>\<open>chalk.red\<close>. The row is the last one the callback has pushed.
\<close>

theorem min_max_cells:
  assumes "a \<noteq> 0" and "b \<noteq> 0"
  shows "(gasData m \<noteq> [] \<and> length (gasData m) = numberOfCalls m \<and>
          min_m m = Some a \<and> max_m m = Some b \<and>
          methodCallback env lvl options (Some m) acc = Inr acc' \<longrightarrow>
            snd acc' \<noteq> [] \<and>
            minCell (row (last (snd acc'))) =
              (if a = b then CText (dash lvl) else CText (chalk lvl Cyan (Lit (commify a)))) \<and>
            maxCell (row (last (snd acc'))) =
              (if a = b then CText (dash lvl) else CText (chalk lvl Red (Lit (commify b))))) \<and>
         (gasData_d d \<noteq> [] \<and> min_d d = Some a \<and> max_d d = Some b \<and>
          deploymentCallback lvl options d deployRows = Inr deployRows' \<longrightarrow>
            deployRows' \<noteq> [] \<and>
            minCell (last deployRows') =
              (if a = b then CText (dash lvl) else CText (chalk lvl Cyan (Lit (commify a)))) \<and>
            maxCell (last deployRows') =
              (if a = b then CText (dash lvl) else CText (chalk lvl Red (Lit (commify b)))))"
proof (intro conjI impI)
  assume h: "gasData m \<noteq> [] \<and> length (gasData m) = numberOfCalls m \<and>
          min_m m = Some a \<and> max_m m = Some b \<and>
          methodCallback env lvl options (Some m) acc = Inr acc'"
  then have "0 < numberOfCalls m" by (cases "gasData m") auto
  with h methodCallback_shown [of env lvl options m acc acc']
  obtain stats front where
    st: "methodStats lvl options m = Inr stats" and
    s: "snd acc' = front @ [\<lparr>row = methodRow env lvl options m stats, contractName = contract m,
                          methodName = fnName options m\<rparr>]"
    by auto
  from st h have mm: "stats_min stats = fst (minMax lvl (Some a) (Some b))"
      "stats_max stats = snd (minMax lvl (Some a) (Some b))"
    by (auto simp: methodStats_def split: sum.splits if_splits)
  show "snd acc' \<noteq> []" using s by simp
  show "minCell (row (last (snd acc'))) =
      (if a = b then CText (dash lvl) else CText (chalk lvl Cyan (Lit (commify a))))"
    using s mm assms by (simp add: minCell_def methodRow_def cell_def minMax_defined)
  show "maxCell (row (last (snd acc'))) =
      (if a = b then CText (dash lvl) else CText (chalk lvl Red (Lit (commify b))))"
    using s mm assms by (simp add: maxCell_def methodRow_def cell_def minMax_defined)
next
  assume h: "gasData_d d \<noteq> [] \<and> min_d d = Some a \<and> max_d d = Some b \<and>
          deploymentCallback lvl options d deployRows = Inr deployRows'"
  with deploymentCallback_shown [of lvl options d deployRows deployRows']
  obtain r where r: "deploymentRow lvl options d = Inr r" and s: "deployRows' = deployRows @ [r]"
    by auto
  show "deployRows' \<noteq> []" using s by simp
  show "minCell (last deployRows') =
      (if a = b then CText (dash lvl) else CText (chalk lvl Cyan (Lit (commify a))))"
    using r s h assms
    by (auto simp: deploymentRow_def Let_def minCell_def cell_def minMax_defined
        split: sum.splits)
  show "maxCell (last deployRows') =
      (if a = b then CText (dash lvl) else CText (chalk lvl Red (Lit (commify b))))"
    using r s h assms
    by (auto simp: deploymentRow_def Let_def maxCell_def cell_def minMax_defined
        split: sum.splits)
qed

theorem min_max_cells_witness:
  "(\<exists>acc'. methodCallback env0 1 options0 (Some approve) ([], []) = Inr acc' \<and>
      minCell (row (last (snd acc'))) = CText (Styled Grey (Lit ''-'')) \<and>
      maxCell (row (last (snd acc'))) = CText (Styled Grey (Lit ''-''))) \<and>
   (\<exists>deployRows'. deploymentCallback 1 options0 token0 [] = Inr deployRows' \<and>
      minCell (last deployRows') = CText (Styled Cyan (Lit ''1,200,000'')) \<and>
      maxCell (last deployRows') = CText (Styled Red (Lit ''1,250,000'')))"
proof
  obtain acc' where c: "methodCallback env0 1 options0 (Some approve) ([], []) = Inr acc'"
    using methodCallback_succeeds [of "Some approve" env0 1 options0 "([], [])"]
    by (auto simp: approve_def)
  have "(46000::nat) \<noteq> 0" by simp
  from min_max_cells [OF this this, where m = approve and env = env0 and lvl = 1
      and options = options0 and acc = "([], [])" and acc' = acc', THEN conjunct1] c
  have "minCell (row (last (snd acc'))) = CText (Styled Grey (Lit ''-'')) \<and>
      maxCell (row (last (snd acc'))) = CText (Styled Grey (Lit ''-''))"
    by (simp add: approve_def dash_def chalk_def)
  with c show "\<exists>acc'. methodCallback env0 1 options0 (Some approve) ([], []) = Inr acc' \<and>
      minCell (row (last (snd acc'))) = CText (Styled Grey (Lit ''-'')) \<and>
      maxCell (row (last (snd acc'))) = CText (Styled Grey (Lit ''-''))"
    by blast
next
  obtain deployRows' where c: "deploymentCallback 1 options0 token0 [] = Inr deployRows'"
    using deploymentCallback_succeeds [of token0 1 options0 "[]"]
    by (auto simp: token0_def)
  have "(1200000::nat) \<noteq> 0" "(1250000::nat) \<noteq> 0" by simp_all
  from min_max_cells [OF this, where d = token0 and lvl = 1 and options = options0
      and deployRows = "[]" and deployRows' = deployRows', THEN conjunct2] c
  have "minCell (last deployRows') = CText (Styled Cyan (Lit ''1,200,000'')) \<and>
      maxCell (last deployRows') = CText (Styled Red (Lit ''1,250,000''))"
    by (simp add: token0_def chalk_def commify_def decimal.simps commifyGroups.simps digit_def)
  with c show "\<exists>deployRows'. deploymentCallback 1 options0 token0 [] = Inr deployRows' \<and>
      minCell (last deployRows') = CText (Styled Cyan (Lit ''1,200,000'')) \<and>
      maxCell (last deployRows') = CText (Styled Red (Lit ''1,250,000''))"
    by blast
qed
subsection \<open>C6: costs below the displayed precision\<close>

text \<open>
  C6 says that every record whose cost is a number between zero and the smallest
  displayed unit shows the triangle in its cost cell. Line 94 reads the cost of a
  method only when the method has gas data; otherwise (lines 100 to 103) the cost is
  the dash. An uncalled method with a cost of 0.001, shown because
  \<open>options.showUncalledMethods\<close> is set, has the dash in its cost cell at
  precision 2.
\<close>

theorem below_precision_cells_counterexample:
  "cost burn = Some (1 / 1000) \<and> (0::rat) < 1 / 1000 \<and>
   (1 / 1000 :: rat) < 1 / 10 ^ currencyDisplayPrecision optionsUncalled \<and>
   (\<exists>acc'. methodCallback env0 1 optionsUncalled (Some burn) ([], []) = Inr acc' \<and>
      snd acc' \<noteq> [] \<and>
      costCell (row (last (snd acc'))) = CText (Styled Green (Styled Grey (Lit ''-''))) \<and>
      costCell (row (last (snd acc'))) \<noteq> CText (chalk 1 Green (Lit UNICODE_TRIANGLE)))"
  by (simp add: burn_def optionsUncalled_def options0_def env0_def stats_defs methods_defs
      costCell_def)

text \<open>
  C6, amended. For every method or deployment record whose recorded calls are
  non-empty and whose cost is a number below the smallest displayed unit,
  \<open>10^-options.currencyDisplayPrecision\<close>, the cost cell of its row is the triangle
  passed through \<^verbatim>\<open>chalk.green\<close>, not a number. The row is the last one the
  callback has pushed.
\<close>

theorem below_precision_cells:
  assumes "c < 1 / 10 ^ currencyDisplayPrecision options"
  shows "(gasData m \<noteq> [] \<and> length (gasData m) = numberOfCalls m \<and> cost m = Some c \<and>
          methodCallback env lvl options (Some m) acc = Inr acc' \<longrightarrow>
            snd acc' \<noteq> [] \<and>
            costCell (row (last (snd acc'))) = CText (chalk lvl Green (Lit UNICODE_TRIANGLE))) \<and>
         (gasData_d d \<noteq> [] \<and> cost_d d = Some c \<and>
          deploymentCallback lvl options d deployRows = Inr deployRows' \<longrightarrow>
            deployRows' \<noteq> [] \<and>
            costCell (last deployRows') = CText (chalk lvl Green (Lit UNICODE_TRIANGLE)))"
proof (intro conjI impI)
  from assms have below: "c < getSmallestPrecisionVal (currencyDisplayPrecision options)"
    by (simp add: getSmallestPrecisionVal_def)
  {
    assume h: "gasData m \<noteq> [] \<and> length (gasData m) = numberOfCalls m \<and> cost m = Some c \<and>
          methodCallback env lvl options (Some m) acc = Inr acc'"
    then have "0 < numberOfCalls m" by (cases "gasData m") auto
    with h methodCallback_shown [of env lvl options m acc acc']
    obtain stats front where
      st: "methodStats lvl options m = Inr stats" and
      s: "snd acc' = front @ [\<lparr>row = methodRow env lvl options m stats,
                             contractName = contract m, methodName = fnName options m\<rparr>]"
      by auto
    from st h below have "stats_cost stats = CostString (Lit UNICODE_TRIANGLE)"
      by (auto simp: methodStats_def belowPrecision_def split: sum.splits if_splits)
    with s show "snd acc' \<noteq> []"
      "costCell (row (last (snd acc'))) = CText (chalk lvl Green (Lit UNICODE_TRIANGLE))"
      by (simp_all add: costCell_def methodRow_def cell_def costToString_def)
  }
  {
    assume h: "gasData_d d \<noteq> [] \<and> cost_d d = Some c \<and>
          deploymentCallback lvl options d deployRows = Inr deployRows'"
    with deploymentCallback_shown [of lvl options d deployRows deployRows']
    obtain r where r: "deploymentRow lvl options d = Inr r" and s: "deployRows' = deployRows @ [r]"
      by auto
    with h below show "deployRows' \<noteq> []"
      "costCell (last deployRows') = CText (chalk lvl Green (Lit UNICODE_TRIANGLE))"
      by (auto simp: deploymentRow_def Let_def costCell_def cell_def belowPrecision_def
          costToString_def split: sum.splits)
  }
qed

theorem below_precision_cells_witness:
  "(1 / 1000 :: rat) < 1 / 10 ^ currencyDisplayPrecision options0 \<and>
   (\<exists>acc'. methodCallback env0 1 options0 (Some approve) ([], []) = Inr acc' \<and>
      costCell (row (last (snd acc'))) = CText (Styled Green (Lit UNICODE_TRIANGLE))) \<and>
   (1 / 500 :: rat) < 1 / 10 ^ currencyDisplayPrecision options0 \<and>
   (\<exists>deployRows'. deploymentCallback 1 options0 library0 [] = Inr deployRows' \<and>
      costCell (last deployRows') = CText (Styled Green (Lit UNICODE_TRIANGLE)))"
proof -
  have b1: "(1 / 1000 :: rat) < 1 / 10 ^ currencyDisplayPrecision options0"
    and b2: "(1 / 500 :: rat) < 1 / 10 ^ currencyDisplayPrecision options0"
    by (simp_all add: options0_def)
  obtain acc' where c: "methodCallback env0 1 options0 (Some approve) ([], []) = Inr acc'"
    using methodCallback_succeeds [of "Some approve" env0 1 options0 "([], [])"]
    by (auto simp: approve_def)
  from below_precision_cells [OF b1, where m = approve and env = env0 and lvl = 1
      and acc = "([], [])" and acc' = acc', THEN conjunct1] c
  have m: "costCell (row (last (snd acc'))) = CText (Styled Green (Lit UNICODE_TRIANGLE))"
    by (simp add: approve_def chalk_def)
  obtain deployRows' where e: "deploymentCallback 1 options0 library0 [] = Inr deployRows'"
    using deploymentCallback_succeeds [of library0 1 options0 "[]"]
    by (auto simp: library0_def)
  from below_precision_cells [OF b2, where d = library0 and lvl = 1
      and deployRows = "[]" and deployRows' = deployRows', THEN conjunct2] e
  have "costCell (last deployRows') = CText (Styled Green (Lit UNICODE_TRIANGLE))"
    by (simp add: library0_def chalk_def)
  with b1 b2 c m e show ?thesis by blast
qed

subsection \<open>C7: the order of the deployment rows\<close>

lemma forEachDeployment_rows:
  "forEachDeployment lvl options ds deployRows = Inr deployRows' \<Longrightarrow>
   \<exists>new. deployRows' = deployRows @ new \<and>
     map (deploymentRow lvl options) (filter (\<lambda>x. gasData_d x \<noteq> []) ds) = map Inr new"
proof (induction ds arbitrary: deployRows)
  case Nil
  then show ?case by simp
next
  case (Cons x ds)
  from Cons.prems obtain rows1 where
    step: "deploymentCallback lvl options x deployRows = Inr rows1" and
    rest: "forEachDeployment lvl options ds rows1 = Inr deployRows'"
    by (auto split: sum.splits)
  from Cons.IH [OF rest] obtain new where
    new: "deployRows' = rows1 @ new"
      "map (deploymentRow lvl options) (filter (\<lambda>x. gasData_d x \<noteq> []) ds) = map Inr new"
    by blast
  show ?case
  proof (cases "gasData_d x = []")
    case True
    with step have "rows1 = deployRows"
      by (simp add: deploymentCallback_def)
    with new True show ?thesis by simp
  next
    case False
    from deploymentCallback_shown [OF step False] obtain r where
      "deploymentRow lvl options x = Inr r" "rows1 = deployRows @ [r]"
      by blast
    with new False show ?thesis by simp
  qed
qed

lemma deploymentRow_name:
  "deploymentRow lvl options x = Inr r \<Longrightarrow> content (hd r) = CText (chalk lvl Bold (Lit (name x)))"
  by (auto simp: deploymentRow_def Let_def cell_def split: sum.splits)

lemma length_sortBy: "length (sortBy cmp xs) = length xs"
  using mset_sortBy [of cmp xs] by (metis size_mset)

lemma drop_head_body: "drop (4 + length body) (a # b # c # d # body @ rest) = rest"
proof -
  have "4 + length body = Suc (Suc (Suc (Suc (length body))))" by simp
  then show ?thesis by (simp only: drop_Suc_Cons) simp
qed

text \<open>
  C7. With a consistent \<open>localeCompare\<close>, take the deployments that have gas data in
  the order of the sort of line 151: they are in ascending order by name under
  \<open>localeCompare\<close>, whatever the order of \<open>data.deployments\<close> was, and they are the
  deployments with gas data of the snapshot. In a returned table, what follows the four
  leading rows and the method body rows is, when there is such a deployment, the
  deployments subtitle and then the rows of these deployments, one row each, in that
  order, and then the three key rows and nothing else. A deployment without gas data
  has no row. The first cell of each deployment row is the name of its deployment.
\<close>

theorem deployment_rows_sorted_by_name:
  assumes "consistent (localeCompare env)"
    and "generateTerminalTextTable env hre data options proc = (Inr t, d, p)"
    and "shown = filter (\<lambda>x. gasData_d x \<noteq> [])
                   (sortBy (deploymentCompare env) (deployments data))"
  shows "(\<exists>added secs deployRows.
     forEachMethod env (colorLevel options) options (methods data) ([], []) = Inr (added, secs) \<and>
     map (deploymentRow (colorLevel options) options) shown = map Inr deployRows \<and>
     map (\<lambda>r. content (hd r)) deployRows =
       map (\<lambda>x. CText (chalk (colorLevel options) Bold (Lit (name x)))) shown \<and>
     drop (4 + length secs) (rows t) =
       (if shown = [] then [] else deploymentsSubtitle (colorLevel options) options # deployRows)
       @ [keyTitle (colorLevel options) options,
          keyCall env (colorLevel options) options,
          keyAir env (colorLevel options) options]) \<and>
     sorted_wrt (\<lambda>a b. localeCompare env (name a) (name b) \<le> 0) shown \<and>
     mset shown = filter_mset (\<lambda>x. gasData_d x \<noteq> []) (mset (deployments data))"
proof -
  let ?lvl = "colorLevel options"
  let ?sorted = "sortBy (deploymentCompare env) (deployments data)"
  let ?shown = "filter (\<lambda>x. gasData_d x \<noteq> []) ?sorted"
  from table_rows [OF assms(2)] obtain acc deployRows solcRow header where
    m: "forEachMethod env ?lvl options (methods data) ([], []) = Inr acc" and
    dp: "forEachDeployment ?lvl options ?sorted [] = Inr deployRows" and
    t: "rows t = tableRows env ?lvl options solcRow header (snd acc) deployRows"
    by auto
  from forEachDeployment_rows [OF dp]
  have rs: "map (deploymentRow ?lvl options) ?shown = map Inr deployRows"
    by simp
  then have "length (map (deploymentRow ?lvl options) ?shown) = length (map Inr deployRows)"
    by simp
  then have len: "length ?shown = length deployRows"
    by simp
  then have empty: "(?shown = []) = (deployRows = [])"
    by (metis length_0_conv)
  have names: "map (\<lambda>r. content (hd r)) deployRows =
       map (\<lambda>x. CText (chalk ?lvl Bold (Lit (name x)))) ?shown"
  proof (rule nth_equalityI)
    show l: "length (map (\<lambda>r. content (hd r)) deployRows) =
        length (map (\<lambda>x. CText (chalk ?lvl Bold (Lit (name x)))) ?shown)"
      using len by simp
    fix i
    assume "i < length (map (\<lambda>r. content (hd r)) deployRows)"
    with l have i: "i < length deployRows" "i < length ?shown" by simp_all
    from rs have "map (deploymentRow ?lvl options) ?shown ! i = map Inr deployRows ! i"
      by simp
    with i have "deploymentRow ?lvl options (?shown ! i) = Inr (deployRows ! i)"
      by simp
    from deploymentRow_name [OF this] i
    show "map (\<lambda>r. content (hd r)) deployRows ! i =
        map (\<lambda>x. CText (chalk ?lvl Bold (Lit (name x)))) ?shown ! i"
      by simp
  qed
  have place: "drop (4 + length (snd acc)) (rows t) =
       (if ?shown = [] then [] else deploymentsSubtitle ?lvl options # deployRows)
       @ [keyTitle ?lvl options, keyCall env ?lvl options, keyAir env ?lvl options]"
  proof -
    let ?body = "map row (sortBy (sectionCompare env) (snd acc))"
    let ?rest = "(if deployRows \<noteq> [] then deploymentsSubtitle ?lvl options # deployRows else [])
       @ [keyTitle ?lvl options, keyCall env ?lvl options, keyAir env ?lvl options]"
    have "rows t = title ?lvl options # solcRow # networkConfig env ?lvl options # header
        # ?body @ ?rest"
      unfolding t tableRows_def by simp
    moreover have "length ?body = length (snd acc)"
      by (simp add: length_sortBy)
    ultimately have "drop (4 + length (snd acc)) (rows t) = ?rest"
      using drop_head_body [of ?body] by simp
    then show ?thesis using empty by simp
  qed
  from sorted_sortBy [OF consistent_deploymentCompare [OF assms(1)], of "deployments data"]
  have "sorted_wrt (\<lambda>a b. localeCompare env (name a) (name b) \<le> 0) ?sorted"
    by (simp add: deploymentCompare_def)
  then have srt: "sorted_wrt (\<lambda>a b. localeCompare env (name a) (name b) \<le> 0) ?shown"
    by (rule sorted_wrt_filter)
  have ms: "mset ?shown = filter_mset (\<lambda>x. gasData_d x \<noteq> []) (mset (deployments data))"
    by (simp add: mset_sortBy)
  from m have m': "forEachMethod env ?lvl options (methods data) ([], []) = Inr (fst acc, snd acc)"
    by simp
  from m' rs names place have "\<exists>added secs deployRows.
     forEachMethod env ?lvl options (methods data) ([], []) = Inr (added, secs) \<and>
     map (deploymentRow ?lvl options) ?shown = map Inr deployRows \<and>
     map (\<lambda>r. content (hd r)) deployRows =
       map (\<lambda>x. CText (chalk ?lvl Bold (Lit (name x)))) ?shown \<and>
     drop (4 + length secs) (rows t) =
       (if ?shown = [] then [] else deploymentsSubtitle ?lvl options # deployRows)
       @ [keyTitle ?lvl options, keyCall env ?lvl options, keyAir env ?lvl options]"
    by (intro exI conjI)
  with srt ms show ?thesis unfolding assms(3) by (intro conjI)
qed

theorem deployment_rows_sorted_by_name_witness:
  "consistent (localeCompare env0) \<and>
   map name (deployments data0) = [''Vault'', ''Token'', ''Registry''] \<and>
   (\<exists>t d p.
      generateTerminalTextTable env0 hre0 data0 options0 proc0 = (Inr t, d, p) \<and>
      length (rows t) = 13 \<and>
      rows t ! 7 = deploymentsSubtitle 1 options0 \<and>
      content (hd (rows t ! 8)) = CText (Styled Bold (Lit ''Token'')) \<and>
      content (hd (rows t ! 9)) = CText (Styled Bold (Lit ''Vault'')) \<and>
      rows t ! 10 = keyTitle 1 options0)"
proof -
  have c: "consistent (localeCompare env0)"
    by (simp add: env0_def consistent_codeUnitCompare)
  from run0 obtain t d p where
    r: "generateTerminalTextTable env0 hre0 data0 options0 proc0 = (Inr t, d, p)"
    by blast
  have lvl: "colorLevel options0 = 1"
    by (simp add: colorLevel_def options0_def)
  have shown: "[token0, vault] = filter (\<lambda>x. gasData_d x \<noteq> [])
      (sortBy (deploymentCompare env0) (deployments data0))"
    by (simp add: sorted_deployments0) (simp add: unused_def token0_def vault_def)
  have three: "\<exists>added secs.
      forEachMethod env0 1 options0 (methods data0) ([], []) = Inr (added, secs) \<and>
      length secs = 3"
    by (simp add: data0_def mint_def transfer_def approve_def options0_def methodCallback_def
        methodStats_def commifyOpt_def Let_def)
  from deployment_rows_sorted_by_name [OF c r shown]
  obtain added secs deployRows where
    m: "forEachMethod env0 1 options0 (methods data0) ([], []) = Inr (added, secs)" and
    n: "map (\<lambda>r. content (hd r)) deployRows =
       map (\<lambda>x. CText (chalk 1 Bold (Lit (name x)))) [token0, vault]" and
    dr: "drop (4 + length secs) (rows t) =
       (if [token0, vault] = [] then [] else deploymentsSubtitle 1 options0 # deployRows)
       @ [keyTitle 1 options0, keyCall env0 1 options0, keyAir env0 1 options0]"
    unfolding lvl by blast
  from m three have len: "length secs = 3" by auto
  from n obtain r1 r2 where
    rows2: "deployRows = [r1, r2]" and
    c1: "content (hd r1) = CText (Styled Bold (Lit ''Token''))" and
    c2: "content (hd r2) = CText (Styled Bold (Lit ''Vault''))"
    by (auto simp: map_eq_Cons_conv chalk_def token0_def vault_def)
  from dr len rows2 have tail: "drop 7 (rows t) =
      [deploymentsSubtitle 1 options0, r1, r2,
       keyTitle 1 options0, keyCall env0 1 options0, keyAir env0 1 options0]"
    by simp
  then have "length (drop 7 (rows t)) = 6" by simp
  then have total: "length (rows t) = 13" by simp
  have nth: "rows t ! (7 + i) = drop 7 (rows t) ! i" if "i < 6" for i
    using that total by simp
  from nth [of 0] nth [of 1] nth [of 2] nth [of 3] tail c1 c2 have
    "rows t ! 7 = deploymentsSubtitle 1 options0"
    "content (hd (rows t ! 8)) = CText (Styled Bold (Lit ''Token''))"
    "content (hd (rows t ! 9)) = CText (Styled Bold (Lit ''Vault''))"
    "rows t ! 10 = keyTitle 1 options0"
    by simp_all
  moreover have "map name (deployments data0) = [''Vault'', ''Token'', ''Registry'']"
    by (simp add: data0_def vault_def token0_def unused_def)
  ultimately show ?thesis using c r total by blast
qed

subsection \<open>The loop over the methods\<close>

lemma methodCallback_Some:
  "methodCallback env lvl options (Some m) acc = Inr acc' \<longleftrightarrow>
     (\<exists>stats. methodStats lvl options m = Inr stats \<and>
        acc' =
          (fst acc @ (if contract m \<notin> set (fst acc) \<and> gasData m \<noteq> [] then [contract m] else []),
           snd acc
           @ (if contract m \<notin> set (fst acc) \<and> gasData m \<noteq> []
              then [contractNameSection lvl options (contract m)] else [])
           @ (if showUncalledMethods options \<or> 0 < numberOfCalls m
              then [methodSection env lvl options m stats] else [])))"
  by (auto simp: methodCallback_def Let_def split: sum.splits)

lemma methodSection_not_header:
  "methodSection env lvl options m stats \<noteq> contractNameSection lvl' options' c"
proof
  assume "methodSection env lvl options m stats = contractNameSection lvl' options' c"
  then have "length (row (methodSection env lvl options m stats)) =
      length (row (contractNameSection lvl' options' c))"
    by simp
  then show False
    by (simp add: methodSection_def methodRow_def contractNameSection_def)
qed

lemma contractNameSection_inject:
  "contractNameSection lvl options c = contractNameSection lvl options c' \<longleftrightarrow> c = c'"
proof
  assume "contractNameSection lvl options c = contractNameSection lvl options c'"
  then have "contractName (contractNameSection lvl options c) =
      contractName (contractNameSection lvl options c')"
    by simp
  then show "c = c'" by (simp add: contractNameSection_def)
qed simp

lemma forEachMethod_append:
  "forEachMethod env lvl options (xs @ ys) acc =
     (case forEachMethod env lvl options xs acc of
        Inl e \<Rightarrow> Inl e
      | Inr acc1 \<Rightarrow> forEachMethod env lvl options ys acc1)"
  by (induction xs arbitrary: acc) (auto split: sum.splits)

text \<open>What a run of the loop adds to \<open>addedContracts\<close> and to \<open>methodRows\<close>: the
  contracts of the records with gas data, and sections among which a contract header
  stands only for a contract that was not yet added and has a record with gas data.\<close>

lemma forEachMethod_invariant:
  "forEachMethod env lvl options entries acc = Inr acc' \<Longrightarrow>
   set (fst acc') =
     set (fst acc) \<union> {contract m |m. Some m \<in> set entries \<and> gasData m \<noteq> []} \<and>
   (\<exists>new. snd acc' = snd acc @ new \<and>
      (\<forall>c. contractNameSection lvl options c \<in> set new \<longrightarrow>
         c \<notin> set (fst acc) \<and> (\<exists>m. Some m \<in> set entries \<and> contract m = c \<and> gasData m \<noteq> [])) \<and>
      (\<forall>m. Some m \<in> set entries \<and> (showUncalledMethods options \<or> 0 < numberOfCalls m) \<longrightarrow>
         (\<exists>stats. methodStats lvl options m = Inr stats \<and>
            methodSection env lvl options m stats \<in> set new)))"
proof (induction entries arbitrary: acc)
  case Nil
  then show ?case by simp
next
  case (Cons entry entries)
  from Cons.prems obtain acc1 where
    step: "methodCallback env lvl options entry acc = Inr acc1" and
    rest: "forEachMethod env lvl options entries acc1 = Inr acc'"
    by (auto split: sum.splits)
  from Cons.IH [OF rest] obtain new where
    added: "set (fst acc') =
      set (fst acc1) \<union> {contract m |m. Some m \<in> set entries \<and> gasData m \<noteq> []}" and
    new: "snd acc' = snd acc1 @ new" and
    hdrs: "\<forall>c. contractNameSection lvl options c \<in> set new \<longrightarrow>
      c \<notin> set (fst acc1) \<and> (\<exists>m. Some m \<in> set entries \<and> contract m = c \<and> gasData m \<noteq> [])" and
    shown: "\<forall>m. Some m \<in> set entries \<and> (showUncalledMethods options \<or> 0 < numberOfCalls m) \<longrightarrow>
      (\<exists>stats. methodStats lvl options m = Inr stats \<and>
         methodSection env lvl options m stats \<in> set new)"
    by blast
  show ?case
  proof (cases entry)
    case None
    with step have "acc1 = acc" by (simp add: methodCallback_def)
    with None added new hdrs shown show ?thesis by auto
  next
    case (Some m)
    let ?first = "contract m \<notin> set (fst acc) \<and> gasData m \<noteq> []"
    let ?h = "if ?first then [contractNameSection lvl options (contract m)] else []"
    from step Some obtain stats where
      st: "methodStats lvl options m = Inr stats" and
      a1: "fst acc1 = fst acc @ (if ?first then [contract m] else [])" and
      s1: "snd acc1 = snd acc @ ?h
             @ (if showUncalledMethods options \<or> 0 < numberOfCalls m
                then [methodSection env lvl options m stats] else [])"
      by (auto simp: methodCallback_Some)
    let ?new1 = "?h @ (if showUncalledMethods options \<or> 0 < numberOfCalls m
                then [methodSection env lvl options m stats] else [])"
    have 1: "set (fst acc') =
        set (fst acc) \<union> {contract m |m. Some m \<in> set (entry # entries) \<and> gasData m \<noteq> []}"
      using added a1 Some by auto
    have 2: "snd acc' = snd acc @ (?new1 @ new)"
      using new s1 by simp
    have 3: "\<forall>c. contractNameSection lvl options c \<in> set (?new1 @ new) \<longrightarrow>
        c \<notin> set (fst acc) \<and>
        (\<exists>m. Some m \<in> set (entry # entries) \<and> contract m = c \<and> gasData m \<noteq> [])"
    proof (intro allI impI)
      fix c
      assume "contractNameSection lvl options c \<in> set (?new1 @ new)"
      then consider "contractNameSection lvl options c \<in> set ?h"
        | "contractNameSection lvl options c \<in> set new"
        using methodSection_not_header [of env lvl options m stats lvl options c]
        by (auto split: if_splits)
      then show "c \<notin> set (fst acc) \<and>
          (\<exists>m. Some m \<in> set (entry # entries) \<and> contract m = c \<and> gasData m \<noteq> [])"
      proof cases
        case 1
        then have "?first" and "c = contract m"
          by (auto simp: contractNameSection_inject split: if_splits)
        with Some show ?thesis by auto
      next
        case 2
        with hdrs a1 show ?thesis by auto
      qed
    qed
    have 4: "\<forall>m. Some m \<in> set (entry # entries) \<and>
          (showUncalledMethods options \<or> 0 < numberOfCalls m) \<longrightarrow>
        (\<exists>stats. methodStats lvl options m = Inr stats \<and>
           methodSection env lvl options m stats \<in> set (?new1 @ new))"
      using shown st Some by auto
    from 1 2 3 4 show ?thesis by blast
  qed
qed

subsection \<open>C10: where the contract header is pushed\<close>

text \<open>
  C10. In a run of the loop over the methods that does not throw, the header of a
  contract is pushed at the first record of that contract that has gas data, also
  when earlier records of the contract had none: the sections pushed so far, which
  hold no header of the contract, are followed by the header, by the row of that
  record when the record is shown, and by sections that hold no further header of the
  contract. For a contract all of whose records are without gas data no header is
  pushed, although with \<open>options.showUncalledMethods\<close> the rows of its records are.
\<close>

theorem contract_header_at_first_record_with_calls:
  assumes "forEachMethod env lvl options entries ([], []) = Inr acc'"
  shows "(\<forall>pre m post.
            entries = pre @ Some m # post \<and> gasData m \<noteq> [] \<and>
            (\<forall>m'. Some m' \<in> set pre \<and> contract m' = contract m \<longrightarrow> gasData m' = []) \<longrightarrow>
            (\<exists>accp stats rest.
               forEachMethod env lvl options pre ([], []) = Inr accp \<and>
               methodStats lvl options m = Inr stats \<and>
               snd acc' =
                 snd accp @ [contractNameSection lvl options (contract m)]
                 @ (if showUncalledMethods options \<or> 0 < numberOfCalls m
                    then [methodSection env lvl options m stats] else [])
                 @ rest \<and>
               contractNameSection lvl options (contract m) \<notin> set (snd accp) \<and>
               contractNameSection lvl options (contract m) \<notin> set rest)) \<and>
         (\<forall>c. (\<forall>m'. Some m' \<in> set entries \<and> contract m' = c \<longrightarrow> gasData m' = []) \<longrightarrow>
            contractNameSection lvl options c \<notin> set (snd acc') \<and>
            (showUncalledMethods options \<longrightarrow>
               (\<forall>m'. Some m' \<in> set entries \<and> contract m' = c \<longrightarrow>
                  (\<exists>stats. methodStats lvl options m' = Inr stats \<and>
                     methodSection env lvl options m' stats \<in> set (snd acc')))))"
proof (intro conjI allI impI)
  fix pre m post
  assume h: "entries = pre @ Some m # post \<and> gasData m \<noteq> [] \<and>
      (\<forall>m'. Some m' \<in> set pre \<and> contract m' = contract m \<longrightarrow> gasData m' = [])"
  let ?hdr = "contractNameSection lvl options (contract m)"
  from assms h obtain accp accm where
    p: "forEachMethod env lvl options pre ([], []) = Inr accp" and
    c: "methodCallback env lvl options (Some m) accp = Inr accm" and
    q: "forEachMethod env lvl options post accm = Inr acc'"
    by (auto simp: forEachMethod_append split: sum.splits)
  from forEachMethod_invariant [OF p] h have
    fresh: "contract m \<notin> set (fst accp)" and
    nohdr: "?hdr \<notin> set (snd accp)"
    by auto
  from c fresh h obtain stats where
    st: "methodStats lvl options m = Inr stats" and
    am: "contract m \<in> set (fst accm)" and
    sm: "snd accm = snd accp @ [?hdr]
           @ (if showUncalledMethods options \<or> 0 < numberOfCalls m
              then [methodSection env lvl options m stats] else [])"
    by (auto simp: methodCallback_Some)
  from forEachMethod_invariant [OF q] am obtain rest where
    "snd acc' = snd accm @ rest" and "?hdr \<notin> set rest"
    by blast
  with p st sm nohdr
  show "\<exists>accp stats rest.
      forEachMethod env lvl options pre ([], []) = Inr accp \<and>
      methodStats lvl options m = Inr stats \<and>
      snd acc' =
        snd accp @ [?hdr]
        @ (if showUncalledMethods options \<or> 0 < numberOfCalls m
           then [methodSection env lvl options m stats] else [])
        @ rest \<and>
      ?hdr \<notin> set (snd accp) \<and> ?hdr \<notin> set rest"
    by auto
next
  fix c
  assume "\<forall>m'. Some m' \<in> set entries \<and> contract m' = c \<longrightarrow> gasData m' = []"
  with forEachMethod_invariant [OF assms]
  show "contractNameSection lvl options c \<notin> set (snd acc')"
    by auto
next
  fix c m'
  assume "showUncalledMethods options" and "Some m' \<in> set entries \<and> contract m' = c"
  with forEachMethod_invariant [OF assms]
  show "\<exists>stats. methodStats lvl options m' = Inr stats \<and>
      methodSection env lvl options m' stats \<in> set (snd acc')"
    by auto
qed
theorem contract_header_at_first_record_with_calls_witness:
  "(\<exists>acc' accp stats rest.
      forEachMethod env0 1 optionsUncalled [Some mint, Some transfer, None, Some approve] ([], [])
        = Inr acc' \<and>
      forEachMethod env0 1 optionsUncalled [Some mint] ([], []) = Inr accp \<and>
      methodStats 1 optionsUncalled transfer = Inr stats \<and>
      snd acc' =
        snd accp @ [contractNameSection 1 optionsUncalled ''Token'',
                    methodSection env0 1 optionsUncalled transfer stats] @ rest \<and>
      contractNameSection 1 optionsUncalled ''Token'' \<notin> set (snd accp) \<and>
      contractNameSection 1 optionsUncalled ''Token'' \<notin> set rest) \<and>
   (\<exists>acc' stats.
      forEachMethod env0 1 optionsUncalled [Some mint, Some burn] ([], []) = Inr acc' \<and>
      contractNameSection 1 optionsUncalled ''Token'' \<notin> set (snd acc') \<and>
      methodStats 1 optionsUncalled burn = Inr stats \<and>
      methodSection env0 1 optionsUncalled burn stats \<in> set (snd acc'))"
proof (rule conjI)
  let ?entries = "[Some mint, Some transfer, None, Some approve]"
  obtain acc' where
    run: "forEachMethod env0 1 optionsUncalled ?entries ([], []) = Inr acc'"
    using forEachMethod_succeeds [of ?entries env0 1 optionsUncalled "([], [])"]
    by (auto simp: mint_def transfer_def approve_def)
  have pre: "?entries = [Some mint] @ Some transfer # [None, Some approve] \<and>
      gasData transfer \<noteq> [] \<and>
      (\<forall>m'. Some m' \<in> set [Some mint] \<and> contract m' = contract transfer \<longrightarrow> gasData m' = [])"
    by (simp add: transfer_def mint_def)
  from contract_header_at_first_record_with_calls [OF run, THEN conjunct1, rule_format, OF pre]
  obtain accp stats rest where
    "forEachMethod env0 1 optionsUncalled [Some mint] ([], []) = Inr accp"
    "methodStats 1 optionsUncalled transfer = Inr stats"
    "snd acc' =
        snd accp @ [contractNameSection 1 optionsUncalled ''Token'',
                    methodSection env0 1 optionsUncalled transfer stats] @ rest"
    "contractNameSection 1 optionsUncalled ''Token'' \<notin> set (snd accp)"
    "contractNameSection 1 optionsUncalled ''Token'' \<notin> set rest"
    by (auto simp: transfer_def optionsUncalled_def)
  with run show "\<exists>acc' accp stats rest.
      forEachMethod env0 1 optionsUncalled ?entries ([], []) = Inr acc' \<and>
      forEachMethod env0 1 optionsUncalled [Some mint] ([], []) = Inr accp \<and>
      methodStats 1 optionsUncalled transfer = Inr stats \<and>
      snd acc' =
        snd accp @ [contractNameSection 1 optionsUncalled ''Token'',
                    methodSection env0 1 optionsUncalled transfer stats] @ rest \<and>
      contractNameSection 1 optionsUncalled ''Token'' \<notin> set (snd accp) \<and>
      contractNameSection 1 optionsUncalled ''Token'' \<notin> set rest"
    by (intro exI conjI)
next
  let ?entries = "[Some mint, Some burn]"
  obtain acc' where
    run: "forEachMethod env0 1 optionsUncalled ?entries ([], []) = Inr acc'"
    using forEachMethod_succeeds [of ?entries env0 1 optionsUncalled "([], [])"]
    by (auto simp: mint_def burn_def)
  have none: "\<forall>m'. Some m' \<in> set ?entries \<and> contract m' = ''Token'' \<longrightarrow> gasData m' = []"
    by (auto simp: mint_def burn_def)
  have shown: "showUncalledMethods optionsUncalled"
    by (simp add: optionsUncalled_def)
  have burn: "Some burn \<in> set ?entries \<and> contract burn = ''Token''"
    by (simp add: burn_def)
  note c = contract_header_at_first_record_with_calls
    [OF run, THEN conjunct2, THEN spec, of "''Token''", THEN mp, OF none]
  from c [THEN conjunct1]
  have a: "contractNameSection 1 optionsUncalled ''Token'' \<notin> set (snd acc')" .
  from c [THEN conjunct2, THEN mp, OF shown, THEN spec, of burn, THEN mp, OF burn]
  obtain stats where
    "methodStats 1 optionsUncalled burn = Inr stats"
    "methodSection env0 1 optionsUncalled burn stats \<in> set (snd acc')"
    by blast
  with run a show "\<exists>acc' stats.
      forEachMethod env0 1 optionsUncalled ?entries ([], []) = Inr acc' \<and>
      contractNameSection 1 optionsUncalled ''Token'' \<notin> set (snd acc') \<and>
      methodStats 1 optionsUncalled burn = Inr stats \<and>
      methodSection env0 1 optionsUncalled burn stats \<in> set (snd acc')"
    by (intro exI conjI)
qed

subsection \<open>The order of the method sections\<close>



lemma consistent_tie:
  assumes "consistent cmp"
  shows "(cmp a b = 0) = (cmp b a = 0)"
proof -
  from assms have flip: "\<And>a b. (cmp a b < 0) = (0 < cmp b a)"
    unfolding consistent_def by blast
  from flip [of a b] flip [of b a] show ?thesis by auto
qed

lemma consistent_ties:
  assumes "consistent cmp" and "cmp k x = 0" and "cmp k y = 0"
  shows "cmp x y = 0"
proof -
  from assms(1) have
    flip: "\<And>a b. (cmp a b < 0) = (0 < cmp b a)" and
    trans: "\<And>a b c. cmp a b \<le> 0 \<Longrightarrow> cmp b c \<le> 0 \<Longrightarrow> cmp a c \<le> 0"
    unfolding consistent_def by blast+
  from assms(2,3) have "cmp x k = 0" "cmp y k = 0"
    using consistent_tie [OF assms(1)] by blast+
  with assms(2,3) have "cmp x y \<le> 0" "cmp y x \<le> 0"
    using trans [of x k y] trans [of y k x] by simp_all
  with flip [of x y] show ?thesis by simp
qed

text \<open>The sort is stable: elements that compare as equal keep their order.\<close>

lemma filter_insortBy:
  assumes "consistent cmp"
  shows "filter (\<lambda>y. cmp k y = 0) (insortBy cmp x ys) =
     (if cmp k x = 0 then x # filter (\<lambda>y. cmp k y = 0) ys else filter (\<lambda>y. cmp k y = 0) ys)"
proof (induction ys)
  case Nil
  then show ?case by simp
next
  case (Cons y ys)
  show ?case
  proof (cases "cmp x y \<le> 0")
    case True
    then show ?thesis by simp
  next
    case False
    then have "\<not> (cmp k x = 0 \<and> cmp k y = 0)"
      using consistent_ties [OF assms, of k x y] by auto
    with False Cons show ?thesis by auto
  qed
qed

lemma stable_sortBy:
  "consistent cmp \<Longrightarrow>
   filter (\<lambda>y. cmp k y = 0) (sortBy cmp xs) = filter (\<lambda>y. cmp k y = 0) xs"
  unfolding sortBy_def by (induction xs) (simp_all add: filter_insortBy)




subsection \<open>C3: the order of the method rows\<close>





end
